theory Spec2Isabelle
  imports Main "HOL-Library.Product_Lexorder" "HOL-Library.Sublist"
begin

section \<open>Values shared by the three filters\<close>

text \<open>
  A naive \<^verbatim>\<open>datetime\<close> is the tuple (year, month, day, hour, minute, second,
  sub-second part). Python compares two naive datetimes field by field in this order,
  which is the lexicographic order on the tuple.
\<close>

type_synonym datetime = "nat \<times> nat \<times> nat \<times> nat \<times> nat \<times> nat \<times> nat"

text \<open>The exceptions the code under study can raise, as values.\<close>

datatype error =
    ValueError
  | KeyError
  | TypeError
  | FileNotFoundError
  | NotADirectoryError
  | IsADirectoryError
  | FileExistsError
  | SameFileError
  | JSONDecodeError
  | ParserError
  | UnicodeEncodeError

subsection \<open>\<^verbatim>\<open>datetime.strptime\<close> for the two formats the code uses\<close>

text \<open>
  \<^verbatim>\<open>strptime\<close> turns the format into a regular expression, matches it at the start of
  the string ignoring case, and raises \<^verbatim>\<open>ValueError\<close> when there is no match, when text
  remains after the match, or when the fields are not a date and time of day. A directive
  is an ordered list of alternatives, each a sequence of character classes:
  \<^verbatim>\<open>%Y = \d\d\d\d\<close>, \<^verbatim>\<open>%m = 1[0-2]|0[1-9]|[1-9]\<close>,
  \<^verbatim>\<open>%d = 3[01]|[12]\d|0[1-9]|[1-9]| [1-9]\<close>, \<^verbatim>\<open>%H = 2[0-3]|[0-1]\d|\d\<close>,
  \<^verbatim>\<open>%M = [0-5]\d|\d\<close>, \<^verbatim>\<open>%S = 6[0-1]|[0-5]\d|\d\<close>.
  Every directive of the two formats is followed by a character that is not a digit or by
  the end of the pattern, so the first alternative that matches is the one the
  backtracking matcher settles on. Strings are ASCII here.
\<close>

datatype item = Grp "string list list" | Lit string

definition digits :: string where
  "digits = ''0123456789''"

definition nonzero :: string where
  "nonzero = ''123456789''"

definition directive_Y :: item where
  "directive_Y = Grp [[digits, digits, digits, digits]]"

definition directive_m :: item where
  "directive_m = Grp [[''1'', ''012''], [''0'', nonzero], [nonzero]]"

definition directive_d :: item where
  "directive_d = Grp [[''3'', ''01''], [''12'', digits], [''0'', nonzero], [nonzero], ['' '', nonzero]]"

definition directive_H :: item where
  "directive_H = Grp [[''2'', ''0123''], [''01'', digits], [digits]]"

definition directive_M :: item where
  "directive_M = Grp [[''012345'', digits], [digits]]"

definition directive_S :: item where
  "directive_S = Grp [[''6'', ''01''], [''012345'', digits], [digits]]"

text \<open>The pattern of \<^verbatim>\<open>"%Y-%m-%d"\<close> and of \<^verbatim>\<open>"%Y-%m-%dT%H:%M:%SZ"\<close>.\<close>

definition date_format :: "item list" where
  "date_format = [directive_Y, Lit ''-'', directive_m, Lit ''-'', directive_d]"

definition ts_format :: "item list" where
  "ts_format = date_format @
     [Lit ''Tt'', directive_H, Lit '':'', directive_M, Lit '':'', directive_S, Lit ''Zz'']"

fun match_seq :: "string list \<Rightarrow> string \<Rightarrow> string option" where
  "match_seq [] s = Some s"
| "match_seq (cls # more) [] = None"
| "match_seq (cls # more) (c # s) = (if c \<in> set cls then match_seq more s else None)"

fun first_alt :: "string list list \<Rightarrow> string \<Rightarrow> (string \<times> string) option" where
  "first_alt [] s = None"
| "first_alt (alt # alts) s =
     (case match_seq alt s of
        Some rest \<Rightarrow> Some (take (length alt) s, rest)
      | None \<Rightarrow> first_alt alts s)"

text \<open>\<^verbatim>\<open>int\<close> of a matched group: decimal digits, surrounding blanks ignored.\<close>

definition digit_val :: "char \<Rightarrow> nat" where
  "digit_val c = (of_char c :: nat) - 48"

definition int_of :: "string \<Rightarrow> nat" where
  "int_of s = foldl (\<lambda>n c. if c \<in> set digits then 10 * n + digit_val c else n) 0 s"

fun run_items :: "item list \<Rightarrow> string \<Rightarrow> (nat list \<times> string) option" where
  "run_items [] s = Some ([], s)"
| "run_items (Lit cls # more) s =
     (case match_seq [cls] s of
        None \<Rightarrow> None
      | Some rest \<Rightarrow> run_items more rest)"
| "run_items (Grp alts # more) s =
     (case first_alt alts s of
        None \<Rightarrow> None
      | Some (found, rest) \<Rightarrow>
          (case run_items more rest of
             None \<Rightarrow> None
           | Some (vals, rest') \<Rightarrow> Some (int_of found # vals, rest')))"

definition is_leap :: "nat \<Rightarrow> bool" where
  "is_leap y = (y mod 4 = 0 \<and> (y mod 100 \<noteq> 0 \<or> y mod 400 = 0))"

definition days_in_month :: "nat \<Rightarrow> nat \<Rightarrow> nat" where
  "days_in_month y m =
     (if m = 2 then (if is_leap y then 29 else 28)
      else if m \<in> {4, 6, 9, 11} then 30 else 31)"

text \<open>The constructor of \<^verbatim>\<open>datetime\<close>: it refuses fields out of range.\<close>

definition make_datetime :: "nat \<Rightarrow> nat \<Rightarrow> nat \<Rightarrow> nat \<Rightarrow> nat \<Rightarrow> nat \<Rightarrow> error + datetime" where
  "make_datetime y m d H M S =
     (if 1 \<le> y \<and> y \<le> 9999 \<and> 1 \<le> m \<and> m \<le> 12 \<and> 1 \<le> d \<and> d \<le> days_in_month y m
         \<and> H \<le> 23 \<and> M \<le> 59 \<and> S \<le> 59
      then Inr (y, m, d, H, M, S, 0)
      else Inl ValueError)"

text \<open>\<^verbatim>\<open>datetime.strptime(s, "%Y-%m-%d")\<close>\<close>

definition strptime_date :: "string \<Rightarrow> error + datetime" where
  "strptime_date s =
     (case run_items date_format s of
        Some ([y, m, d], []) \<Rightarrow> make_datetime y m d 0 0 0
      | _ \<Rightarrow> Inl ValueError)"

text \<open>\<^verbatim>\<open>datetime.strptime(s, "%Y-%m-%dT%H:%M:%SZ")\<close>\<close>

definition strptime_ts :: "string \<Rightarrow> error + datetime" where
  "strptime_ts s =
     (case run_items ts_format s of
        Some ([y, m, d, H, M, S], []) \<Rightarrow> make_datetime y m d H M S
      | _ \<Rightarrow> Inl ValueError)"

subsection \<open>Integers as decimal text\<close>

text \<open>The text Python prints for an integer, and the integer a text of digits stands for.\<close>

definition digit_char :: "nat \<Rightarrow> char" where
  "digit_char n = ''0123456789'' ! (n mod 10)"

function show_nat :: "nat \<Rightarrow> string" where
  "show_nat n = (if n < 10 then [digit_char n] else show_nat (n div 10) @ [digit_char n])"
  by pat_completeness auto
termination
  by (relation "measure id") auto

definition show_int :: "int \<Rightarrow> string" where
  "show_int i = (if i < 0 then ''-'' @ show_nat (nat (- i)) else show_nat (nat i))"

definition is_int_text :: "string \<Rightarrow> bool" where
  "is_int_text s =
     (case s of
        [] \<Rightarrow> False
      | c # cs \<Rightarrow>
          if c = CHR ''-'' then cs \<noteq> [] \<and> list_all (\<lambda>d. d \<in> set digits) cs
          else list_all (\<lambda>d. d \<in> set digits) s)"

definition int_of_text :: "string \<Rightarrow> int" where
  "int_of_text s =
     (case s of
        [] \<Rightarrow> 0
      | c # cs \<Rightarrow> if c = CHR ''-'' then - int (int_of cs) else int (int_of s))"

section \<open>The log filter\<close>

text \<open>
  What \<^verbatim>\<open>json.load\<close> returns. An object is its key-value pairs, keys distinct; a
  number with a fraction or an exponent is kept by the text Python prints for it.
\<close>

datatype json =
    JNull
  | JBool bool
  | JNum int
  | JFloat string
  | JStr string
  | JArr "json list"
  | JObj "(string \<times> json) list"

text \<open>
  \<^verbatim>\<open>entry["ts"]\<close>: a dict looks the key up and raises \<^verbatim>\<open>KeyError\<close> when it is
  absent; every other JSON value raises \<^verbatim>\<open>TypeError\<close> on a string subscript.
\<close>

fun subscript :: "json \<Rightarrow> string \<Rightarrow> error + json" where
  "subscript (JObj kvs) k = (case map_of kvs k of None \<Rightarrow> Inl KeyError | Some v \<Rightarrow> Inr v)"
| "subscript _ k = Inl TypeError"

text \<open>\<^verbatim>\<open>strptime\<close> on a value that is not a string raises \<^verbatim>\<open>TypeError\<close>.\<close>

definition entry_time :: "json \<Rightarrow> error + datetime" where
  "entry_time entry =
     (case subscript entry ''ts'' of
        Inl e \<Rightarrow> Inl e
      | Inr (JStr s) \<Rightarrow> strptime_ts s
      | Inr _ \<Rightarrow> Inl TypeError)"

text \<open>
  The list comprehension of lines 74 to 77: entries are visited in order, the first one
  whose timestamp cannot be read raises, and an entry is kept when
  \<^verbatim>\<open>start <= ts <= end\<close>.
\<close>

fun comprehension :: "datetime \<Rightarrow> datetime \<Rightarrow> json list \<Rightarrow> error + json list" where
  "comprehension start end [] = Inr []"
| "comprehension start end (entry # rest) =
     (case entry_time entry of
        Inl e \<Rightarrow> Inl e
      | Inr ts \<Rightarrow>
          (case comprehension start end rest of
             Inl e \<Rightarrow> Inl e
           | Inr kept \<Rightarrow> Inr (if start \<le> ts \<and> ts \<le> end then entry # kept else kept)))"

text \<open>
  \<^verbatim>\<open>for entry in data\<close> on what \<^verbatim>\<open>json.load\<close> returned: a list gives its elements,
  a dict its keys and a string its characters (each a string, on which \<^verbatim>\<open>["ts"]\<close>
  raises \<^verbatim>\<open>TypeError\<close>), anything else is not iterable.
\<close>

fun iterate :: "json \<Rightarrow> error + json list" where
  "iterate (JArr xs) = Inr xs"
| "iterate (JObj kvs) = Inr (map (\<lambda>(k, v). JStr k) kvs)"
| "iterate (JStr s) = Inr (map (\<lambda>c. JStr [c]) s)"
| "iterate _ = Inl TypeError"

section \<open>Files, environment and console\<close>

text \<open>
  A tabular file holds text: the column names of its header and, line by line, its
  fields, each the text of a value or a field that \<^verbatim>\<open>pandas\<close> reads as missing. A frame
  in memory has cells: text, an integer, a missing value, or, once the date column has
  been converted, a timestamp or the missing timestamp \<^verbatim>\<open>NaT\<close>.
\<close>

record table =
  header :: "string list"
  lines :: "string option list list"

datatype cell = Raw string | Num int | NaN | Stamp datetime | NaT

record dataframe =
  columns :: "string list"
  rows :: "cell list list"

text \<open>
  The content of a regular file: a table, a JSON value, the blocks of a journal in the
  order they were written (the text of the file is their concatenation), or other text.
\<close>

datatype content =
    Csv table
  | Json json
  | Journal "string list"
  | Blob string

text \<open>
  A node of the file system is a directory with the names \<^verbatim>\<open>os.listdir\<close> returns, in
  its order, or a regular file with its content and modification time. Paths name nodes
  as they are written: the model resolves no \<^verbatim>\<open>.\<close>, \<^verbatim>\<open>..\<close>, repeated separator or link.
\<close>

type_synonym path = string

datatype node = Dir "string list" | File content datetime

text \<open>
  The world also says which texts the encoding of a file opened in text mode (the one of
  the locale) can encode.
\<close>

record world =
  environ :: "string \<rightharpoonup> string"
  dotenv :: "string \<rightharpoonup> string"
  nodes :: "path \<rightharpoonup> node"
  clock :: datetime
  encodes :: "string \<Rightarrow> bool"

text \<open>
  An operation returns the lines it printed, the world it leaves and the exception that
  ended it, if any.
\<close>

type_synonym run = "string list \<times> world \<times> error option"

definition startswith :: "string \<Rightarrow> string \<Rightarrow> bool" where
  "startswith s p = (take (length p) s = p)"

definition endswith :: "string \<Rightarrow> string \<Rightarrow> bool" where
  "endswith s p = (length p \<le> length s \<and> drop (length s - length p) s = p)"

text \<open>\<^verbatim>\<open>os.path.join\<close>, \<^verbatim>\<open>os.path.basename\<close> and \<^verbatim>\<open>os.path.dirname\<close> (POSIX).\<close>

definition join :: "path \<Rightarrow> string \<Rightarrow> path" where
  "join a b =
     (if startswith b ''/'' then b
      else if a = [] \<or> endswith a ''/'' then a @ b
      else a @ ''/'' @ b)"

definition basename :: "path \<Rightarrow> string" where
  "basename p = rev (takeWhile (\<lambda>c. c \<noteq> CHR ''/'') (rev p))"

definition dirname :: "path \<Rightarrow> path" where
  "dirname p =
     (let head = rev (dropWhile (\<lambda>c. c \<noteq> CHR ''/'') (rev p))
      in if filter (\<lambda>c. c \<noteq> CHR ''/'') head = [] then head
         else rev (dropWhile (\<lambda>c. c = CHR ''/'') (rev head)))"

definition path_exists :: "world \<Rightarrow> path \<Rightarrow> bool" where
  "path_exists w p = (nodes w p \<noteq> None)"

definition isfile :: "world \<Rightarrow> path \<Rightarrow> bool" where
  "isfile w p = (case nodes w p of Some (File c t) \<Rightarrow> True | _ \<Rightarrow> False)"

definition listdir :: "world \<Rightarrow> path \<Rightarrow> error + string list" where
  "listdir w p =
     (case nodes w p of
        None \<Rightarrow> Inl FileNotFoundError
      | Some (File c t) \<Rightarrow> Inl NotADirectoryError
      | Some (Dir names) \<Rightarrow> Inr names)"

text \<open>A new node is entered in the listing of its parent directory, when that is a node.\<close>

definition add_child :: "path \<Rightarrow> world \<Rightarrow> world" where
  "add_child p w =
     (case nodes w (dirname p) of
        Some (Dir names) \<Rightarrow>
          (if basename p \<in> set names then w
           else w\<lparr>nodes := (nodes w)(dirname p \<mapsto> Dir (names @ [basename p]))\<rparr>)
      | _ \<Rightarrow> w)"

text \<open>
  Opening a path for writing: the path must not be empty or a directory and its parent
  must be a directory (a path without a directory part lies in the working directory).
  The file is created or truncated with the given content.
\<close>

definition write_file :: "path \<Rightarrow> content \<Rightarrow> world \<Rightarrow> error + world" where
  "write_file p c w =
     (case nodes w p of
        Some (Dir names) \<Rightarrow> Inl IsADirectoryError
      | _ \<Rightarrow>
          (if p = [] then Inl FileNotFoundError
           else if dirname p = [] then Inr (w\<lparr>nodes := (nodes w)(p \<mapsto> File c (clock w))\<rparr>)
           else
             (case nodes w (dirname p) of
                None \<Rightarrow> Inl FileNotFoundError
              | Some (File c' t) \<Rightarrow> Inl NotADirectoryError
              | Some (Dir names) \<Rightarrow>
                  Inr (add_child p (w\<lparr>nodes := (nodes w)(p \<mapsto> File c (clock w))\<rparr>)))))"

text \<open>
  \<^verbatim>\<open>os.makedirs(p, exist_ok=True)\<close>: the path and each missing ancestor, outermost first.
\<close>

definition ancestors :: "path \<Rightarrow> path list" where
  "ancestors p =
     filter (\<lambda>q. filter (\<lambda>c. c \<noteq> CHR ''/'') q \<noteq> [])
       (map (\<lambda>i. take i p) (filter (\<lambda>i. p ! i = CHR ''/'') [0..<length p]))"

fun mkdir_each :: "path list \<Rightarrow> world \<Rightarrow> error + world" where
  "mkdir_each [] w = Inr w"
| "mkdir_each (p # ps) w =
     (case nodes w p of
        Some (Dir names) \<Rightarrow> mkdir_each ps w
      | Some (File c t) \<Rightarrow> Inl NotADirectoryError
      | None \<Rightarrow> mkdir_each ps (add_child p (w\<lparr>nodes := (nodes w)(p \<mapsto> Dir [])\<rparr>)))"

definition makedirs :: "path \<Rightarrow> world \<Rightarrow> error + world" where
  "makedirs p w =
     (case nodes w p of
        Some (Dir names) \<Rightarrow> Inr w
      | Some (File c t) \<Rightarrow> Inl FileExistsError
      | None \<Rightarrow> (if p = [] then Inl FileNotFoundError else mkdir_each (ancestors p @ [p]) w))"

text \<open>
  \<^verbatim>\<open>load_dotenv()\<close> adds the variables of the \<^verbatim>\<open>.env\<close> file that the environment
  does not define already; \<^verbatim>\<open>os.getenv\<close> reads one. \<^verbatim>\<open>not v\<close> is true of a
  variable that is not set and of one set to the empty string.
\<close>

definition load_dotenv :: "world \<Rightarrow> world" where
  "load_dotenv w = w\<lparr>environ := dotenv w ++ environ w\<rparr>"

definition getenv :: "world \<Rightarrow> string \<Rightarrow> string option" where
  "getenv w k = environ w k"

text \<open>Sequencing: the second operation runs when the first one raised nothing.\<close>

definition then_run :: "run \<Rightarrow> (world \<Rightarrow> run) \<Rightarrow> run" where
  "then_run r f =
     (case r of
        (out, w, Some e) \<Rightarrow> (out, w, Some e)
      | (out, w, None) \<Rightarrow> (case f w of (out', w', r') \<Rightarrow> (out @ out', w', r')))"

section \<open>The tabular filter and its batch\<close>

text \<open>
  \<^verbatim>\<open>pd.read_csv\<close> infers the type of each column from all of its fields: a column in
  which every line has a field and every field is the text of an integer is read as
  integers (so \<^verbatim>\<open>007\<close> is read as 7); any other column is kept here as text, with its
  missing fields as missing values. (The library also infers floating-point and truth
  values, which the model keeps as their text.)
\<close>

definition field_at :: "string option list \<Rightarrow> nat \<Rightarrow> string option" where
  "field_at l j = (if j < length l then l ! j else None)"

definition numeric :: "string option list list \<Rightarrow> nat \<Rightarrow> bool" where
  "numeric ls j =
     (ls \<noteq> [] \<and>
      list_all (\<lambda>l. case field_at l j of None \<Rightarrow> False | Some s \<Rightarrow> is_int_text s) ls)"

definition load_cell :: "bool \<Rightarrow> string option \<Rightarrow> cell" where
  "load_cell num f =
     (case f of
        None \<Rightarrow> NaN
      | Some s \<Rightarrow> if num then Num (int_of_text s) else Raw s)"

definition load_row :: "string option list list \<Rightarrow> string option list \<Rightarrow> cell list" where
  "load_row ls l = map (\<lambda>j. load_cell (numeric ls j) (l ! j)) [0..<length l]"

definition load_table :: "table \<Rightarrow> dataframe" where
  "load_table t = \<lparr>columns = header t, rows = map (load_row (lines t)) (lines t)\<rparr>"

text \<open>
  \<^verbatim>\<open>pd.to_datetime\<close> converts a cell that holds text or a number with the library's own
  conversion, a parameter \<open>parse\<close> of the model (it raises, or returns a timestamp or
  no timestamp); a missing value becomes \<^verbatim>\<open>NaT\<close> and a cell that is a timestamp already
  stays as it is.
\<close>

definition read_csv :: "world \<Rightarrow> path \<Rightarrow> error + dataframe" where
  "read_csv w p =
     (case nodes w p of
        None \<Rightarrow> Inl FileNotFoundError
      | Some (Dir names) \<Rightarrow> Inl IsADirectoryError
      | Some (File (Csv t) tm) \<Rightarrow> Inr (load_table t)
      | Some (File c tm) \<Rightarrow> Inl ParserError)"

definition to_datetime :: "(cell \<Rightarrow> error + datetime option) \<Rightarrow> cell \<Rightarrow> error + cell" where
  "to_datetime parse c =
     (case c of
        NaN \<Rightarrow> Inr NaT
      | Stamp t \<Rightarrow> Inr (Stamp t)
      | NaT \<Rightarrow> Inr NaT
      | _ \<Rightarrow>
          (case parse c of
             Inl e \<Rightarrow> Inl e
           | Inr None \<Rightarrow> Inr NaT
           | Inr (Some t) \<Rightarrow> Inr (Stamp t)))"

fun column_index :: "string \<Rightarrow> string list \<Rightarrow> nat option" where
  "column_index c [] = None"
| "column_index c (x # xs) =
     (if x = c then Some 0 else map_option Suc (column_index c xs))"

text \<open>A row shorter than the header has missing values in its last columns.\<close>

definition cell_at :: "cell list \<Rightarrow> nat \<Rightarrow> cell" where
  "cell_at r i = (if i < length r then r ! i else NaN)"

definition set_cell :: "cell list \<Rightarrow> nat \<Rightarrow> cell \<Rightarrow> cell list" where
  "set_cell r i c = (r @ replicate (Suc i - length r) NaN)[i := c]"

text \<open>Line 26: the date column of every row, converted; the first failure raises.\<close>

fun convert_rows ::
  "(cell \<Rightarrow> error + datetime option) \<Rightarrow> nat \<Rightarrow> cell list list \<Rightarrow> error + cell list list" where
  "convert_rows parse i [] = Inr []"
| "convert_rows parse i (r # rs) =
     (case to_datetime parse (cell_at r i) of
        Inl e \<Rightarrow> Inl e
      | Inr c \<Rightarrow>
          (case convert_rows parse i rs of
             Inl e \<Rightarrow> Inl e
           | Inr rs' \<Rightarrow> Inr (set_cell r i c # rs')))"

text \<open>
  Line 31: \<^verbatim>\<open>(data[date_column] >= start) & (data[date_column] <= end)\<close>. A comparison
  with \<^verbatim>\<open>NaT\<close> is false.
\<close>

definition in_range :: "datetime \<Rightarrow> datetime \<Rightarrow> nat \<Rightarrow> cell list \<Rightarrow> bool" where
  "in_range start end i r =
     (case cell_at r i of Stamp t \<Rightarrow> start \<le> t \<and> t \<le> end | _ \<Rightarrow> False)"

definition filter_data_by_date ::
  "(cell \<Rightarrow> error + datetime option) \<Rightarrow> world \<Rightarrow> path \<Rightarrow> string \<Rightarrow> string \<Rightarrow> string
     \<Rightarrow> error + dataframe" where
  "filter_data_by_date parse w file_path start_date end_date date_column =
     (case read_csv w file_path of
        Inl e \<Rightarrow> Inl e
      | Inr data \<Rightarrow>
     (case column_index date_column (columns data) of
        None \<Rightarrow> Inl KeyError
      | Some i \<Rightarrow>
     (case convert_rows parse i (rows data) of
        Inl e \<Rightarrow> Inl e
      | Inr converted \<Rightarrow>
     (case strptime_date start_date of
        Inl e \<Rightarrow> Inl e
      | Inr start \<Rightarrow>
     (case strptime_date end_date of
        Inl e \<Rightarrow> Inl e
      | Inr end \<Rightarrow>
          Inr \<lparr>columns = columns data, rows = filter (in_range start end i) converted\<rparr>)))))"

text \<open>
  \<^verbatim>\<open>filtered_data.to_csv(output_path, index=False)\<close> writes text: the header and, for
  every row, the text of each cell. A missing value and \<^verbatim>\<open>NaT\<close> are written as an empty
  field, which is read back as missing, and an integer as its decimal text. A timestamp is written as the text the library
  prints for it, which depends on the timestamps of its column (the time of day is left
  out when every one is a midnight): a parameter \<open>fmt\<close> of the model, given the
  timestamps of the column and the one to print.
\<close>

definition column_stamps :: "cell list list \<Rightarrow> nat \<Rightarrow> datetime list" where
  "column_stamps rs j = concat (map (\<lambda>r. case cell_at r j of Stamp t \<Rightarrow> [t] | _ \<Rightarrow> []) rs)"

definition store_cell :: "(datetime list \<Rightarrow> datetime \<Rightarrow> string) \<Rightarrow> datetime list \<Rightarrow> cell \<Rightarrow> string option" where
  "store_cell fmt ts c =
     (case c of
        Raw s \<Rightarrow> Some s
      | Num n \<Rightarrow> Some (show_int n)
      | NaN \<Rightarrow> None
      | Stamp t \<Rightarrow> Some (fmt ts t)
      | NaT \<Rightarrow> None)"

definition store_row ::
  "(datetime list \<Rightarrow> datetime \<Rightarrow> string) \<Rightarrow> cell list list \<Rightarrow> cell list \<Rightarrow> string option list" where
  "store_row fmt rs r = map (\<lambda>j. store_cell fmt (column_stamps rs j) (r ! j)) [0..<length r]"

definition to_text :: "(datetime list \<Rightarrow> datetime \<Rightarrow> string) \<Rightarrow> dataframe \<Rightarrow> table" where
  "to_text fmt df = \<lparr>header = columns df, lines = map (store_row fmt (rows df)) (rows df)\<rparr>"

definition to_csv ::
  "(datetime list \<Rightarrow> datetime \<Rightarrow> string) \<Rightarrow> dataframe \<Rightarrow> path \<Rightarrow> world \<Rightarrow> run" where
  "to_csv fmt df p w =
     (case write_file p (Csv (to_text fmt df)) w of
        Inl e \<Rightarrow> ([], w, Some e)
      | Inr w' \<Rightarrow> ([], w', None))"

text \<open>
  Lines 44 to 54. Nothing catches what \<^verbatim>\<open>filter_data_by_date\<close> or \<^verbatim>\<open>to_csv\<close> raises:
  the exception leaves the loop.
\<close>

fun process_data_sources ::
  "(cell \<Rightarrow> error + datetime option) \<Rightarrow> (datetime list \<Rightarrow> datetime \<Rightarrow> string)
     \<Rightarrow> (path \<times> string \<times> path) list \<Rightarrow> string \<Rightarrow> string \<Rightarrow> world \<Rightarrow> run" where
  "process_data_sources parse fmt [] start_date end_date w = ([], w, None)"
| "process_data_sources parse fmt ((file_path, date_column, output_path) # rest) start_date end_date w =
     (if \<not> path_exists w file_path then
        then_run ([''File not found: '' @ file_path], w, None)
          (process_data_sources parse fmt rest start_date end_date)
      else
        (case filter_data_by_date parse w file_path start_date end_date date_column of
           Inl e \<Rightarrow> ([''Processing file: '' @ file_path], w, Some e)
         | Inr filtered_data \<Rightarrow>
             then_run
               (then_run ([''Processing file: '' @ file_path], w, None)
                  (to_csv fmt filtered_data output_path))
               (\<lambda>w'. then_run ([''Filtered data saved to: '' @ output_path], w', None)
                  (process_data_sources parse fmt rest start_date end_date))))"

section \<open>The log filter and the journal exporter\<close>

text \<open>\<^verbatim>\<open>open(file_path, "r")\<close> and \<^verbatim>\<open>json.load\<close>\<close>

definition json_load :: "world \<Rightarrow> path \<Rightarrow> error + json" where
  "json_load w p =
     (case nodes w p of
        None \<Rightarrow> Inl FileNotFoundError
      | Some (Dir names) \<Rightarrow> Inl IsADirectoryError
      | Some (File (Json j) t) \<Rightarrow> Inr j
      | Some (File c t) \<Rightarrow> Inl JSONDecodeError)"

definition filter_spotify_data :: "world \<Rightarrow> path \<Rightarrow> string \<Rightarrow> string \<Rightarrow> error + json list" where
  "filter_spotify_data w file_path start_date end_date =
     (case strptime_date start_date of
        Inl e \<Rightarrow> Inl e
      | Inr start \<Rightarrow>
     (case strptime_date end_date of
        Inl e \<Rightarrow> Inl e
      | Inr end \<Rightarrow>
     (case json_load w file_path of
        Inl e \<Rightarrow> Inl e
      | Inr data \<Rightarrow>
     (case iterate data of
        Inl e \<Rightarrow> Inl e
      | Inr entries \<Rightarrow> comprehension start end entries))))"

text \<open>
  \<^verbatim>\<open>str\<close> of a value, as a replacement field of an f-string prints it: a string is
  itself, null is \<^verbatim>\<open>None\<close>, a truth value and a number are printed, and a list or a dict
  is printed by \<^verbatim>\<open>repr\<close>, a parameter of the model.
\<close>

definition str_of :: "(json \<Rightarrow> string) \<Rightarrow> json \<Rightarrow> string" where
  "str_of repr v =
     (case v of
        JStr s \<Rightarrow> s
      | JNull \<Rightarrow> ''None''
      | JBool b \<Rightarrow> (if b then ''True'' else ''False'')
      | JNum n \<Rightarrow> show_int n
      | JFloat s \<Rightarrow> s
      | _ \<Rightarrow> repr v)"

definition unlines :: "string list \<Rightarrow> string" where
  "unlines ls = concat (map (\<lambda>l. l @ [CHR 0x0A]) ls)"

text \<open>
  Lines 96 to 104: the six subscripts of the formatted block, in the order they are
  evaluated, and the text of the block, seven lines each ended by a line feed.
\<close>

definition journal_entry :: "(json \<Rightarrow> string) \<Rightarrow> json \<Rightarrow> error + string" where
  "journal_entry repr entry =
     (case subscript entry ''ts'' of Inl e \<Rightarrow> Inl e | Inr a \<Rightarrow>
     (case subscript entry ''master_metadata_track_name'' of Inl e \<Rightarrow> Inl e | Inr b \<Rightarrow>
     (case subscript entry ''master_metadata_album_artist_name'' of Inl e \<Rightarrow> Inl e | Inr c \<Rightarrow>
     (case subscript entry ''master_metadata_album_album_name'' of Inl e \<Rightarrow> Inl e | Inr d \<Rightarrow>
     (case subscript entry ''platform'' of Inl e \<Rightarrow> Inl e | Inr f \<Rightarrow>
     (case subscript entry ''ms_played'' of Inl e \<Rightarrow> Inl e | Inr g \<Rightarrow>
        Inr (unlines
          [''Date: '' @ str_of repr a,
           ''Track: '' @ str_of repr b,
           ''Artist: '' @ str_of repr c,
           ''Album: '' @ str_of repr d,
           ''Platform: '' @ str_of repr f,
           ''Time Played: '' @ str_of repr g @ '' ms'',
           ''---''])))))))"

text \<open>
  The loop of lines 95 to 105: the blocks written before the first exception, and it.
  \<^verbatim>\<open>file.write\<close> raises \<^verbatim>\<open>UnicodeEncodeError\<close> for a block that the encoding of the file
  cannot encode.
\<close>

fun write_entries ::
  "(string \<Rightarrow> bool) \<Rightarrow> (json \<Rightarrow> string) \<Rightarrow> json list \<Rightarrow> string list \<times> error option" where
  "write_entries enc repr [] = ([], None)"
| "write_entries enc repr (entry # rest) =
     (case journal_entry repr entry of
        Inl e \<Rightarrow> ([], Some e)
      | Inr block \<Rightarrow>
          if enc block then
            (case write_entries enc repr rest of (blocks, err) \<Rightarrow> (block # blocks, err))
          else ([], Some UnicodeEncodeError))"

definition journal_name :: "string \<Rightarrow> string \<Rightarrow> string" where
  "journal_name start_date end_date =
     ''spotify_journal_'' @ start_date @ ''_to_'' @ end_date @ ''.txt''"

text \<open>
  Lines 91 to 107. The file is opened with mode \<^verbatim>\<open>"w"\<close>, which creates or truncates it,
  before the first block is formatted, and it is closed with what was written when an
  exception leaves the \<^verbatim>\<open>with\<close> block.
\<close>

definition save_spotify_data_for_journaling ::
  "(json \<Rightarrow> string) \<Rightarrow> json list \<Rightarrow> path \<Rightarrow> string \<Rightarrow> string \<Rightarrow> world \<Rightarrow> run" where
  "save_spotify_data_for_journaling repr filtered_data output_dir start_date end_date w =
     (case makedirs output_dir w of
        Inl e \<Rightarrow> ([], w, Some e)
      | Inr w1 \<Rightarrow>
          (let output_file = join output_dir (journal_name start_date end_date) in
           case write_entries (encodes w) repr filtered_data of (written, err) \<Rightarrow>
             (case write_file output_file (Journal written) w1 of
                Inl e \<Rightarrow> ([], w1, Some e)
              | Inr w2 \<Rightarrow>
                  (case err of
                     Some e \<Rightarrow> ([], w2, Some e)
                   | None \<Rightarrow> ([''Journal-ready Spotify data saved to: '' @ output_file], w2, None)))))"

section \<open>The orchestrations\<close>

text \<open>The loop of lines 131 to 139 over the names \<^verbatim>\<open>os.listdir\<close> returned.\<close>

fun spotify_files ::
  "(json \<Rightarrow> string) \<Rightarrow> path \<Rightarrow> path \<Rightarrow> string \<Rightarrow> string \<Rightarrow> string list \<Rightarrow> world \<Rightarrow> run" where
  "spotify_files repr spotify_path output_dir start_date end_date [] w = ([], w, None)"
| "spotify_files repr spotify_path output_dir start_date end_date (file_name # rest) w =
     (if startswith file_name ''Streaming_History_Audio'' \<and> endswith file_name ''.json'' then
        (case filter_spotify_data w (join spotify_path file_name) start_date end_date of
           Inl e \<Rightarrow> ([''Processing Spotify file: '' @ join spotify_path file_name], w, Some e)
         | Inr filtered_data \<Rightarrow>
             then_run
               (then_run ([''Processing Spotify file: '' @ join spotify_path file_name], w, None)
                  (save_spotify_data_for_journaling repr filtered_data output_dir start_date end_date))
               (spotify_files repr spotify_path output_dir start_date end_date rest))
      else spotify_files repr spotify_path output_dir start_date end_date rest w)"

definition process_spotify_data :: "(json \<Rightarrow> string) \<Rightarrow> string \<Rightarrow> string \<Rightarrow> world \<Rightarrow> run" where
  "process_spotify_data repr start_date end_date w0 =
     (let w = load_dotenv w0;
          spotify_path = getenv w ''SPOTIFY_DATA_PATH'';
          output_dir = getenv w ''OUTPUT_PATH'';
          no_source = ([''Spotify data path not found or not specified in .env file.''], w, None);
          no_output = ([''Output path not specified in .env file.''], w, None)
      in case spotify_path of
           None \<Rightarrow> no_source
         | Some sp \<Rightarrow>
             if sp = [] \<or> \<not> path_exists w sp then no_source
             else
               (case output_dir of
                  None \<Rightarrow> no_output
                | Some od \<Rightarrow>
                    if od = [] then no_output
                    else
                      (case makedirs od w of
                         Inl e \<Rightarrow> ([], w, Some e)
                       | Inr w1 \<Rightarrow>
                           (case listdir w1 sp of
                              Inl e \<Rightarrow> ([], w1, Some e)
                            | Inr names \<Rightarrow> spotify_files repr sp od start_date end_date names w1))))"

text \<open>
  \<^verbatim>\<open>os.path.getmtime\<close> with \<^verbatim>\<open>datetime.fromtimestamp\<close>, and \<^verbatim>\<open>shutil.copy\<close>, which
  writes into a destination that is a directory under the name of the source.
\<close>

definition getmtime :: "world \<Rightarrow> path \<Rightarrow> error + datetime" where
  "getmtime w p =
     (case nodes w p of
        Some (File c t) \<Rightarrow> Inr t
      | Some (Dir names) \<Rightarrow> Inl IsADirectoryError
      | None \<Rightarrow> Inl FileNotFoundError)"

definition copy :: "path \<Rightarrow> path \<Rightarrow> world \<Rightarrow> error + world" where
  "copy src dst w =
     (case nodes w src of
        None \<Rightarrow> Inl FileNotFoundError
      | Some (Dir names) \<Rightarrow> Inl IsADirectoryError
      | Some (File c t) \<Rightarrow>
          (let target = (case nodes w dst of
                           Some (Dir names) \<Rightarrow> join dst (basename src)
                         | _ \<Rightarrow> dst)
           in if target = src then Inl SameFileError else write_file target c w))"

definition describe :: "error \<Rightarrow> string" where
  "describe e =
     (case e of
        ValueError \<Rightarrow> ''ValueError''
      | KeyError \<Rightarrow> ''KeyError''
      | TypeError \<Rightarrow> ''TypeError''
      | FileNotFoundError \<Rightarrow> ''FileNotFoundError''
      | NotADirectoryError \<Rightarrow> ''NotADirectoryError''
      | IsADirectoryError \<Rightarrow> ''IsADirectoryError''
      | FileExistsError \<Rightarrow> ''FileExistsError''
      | SameFileError \<Rightarrow> ''SameFileError''
      | JSONDecodeError \<Rightarrow> ''JSONDecodeError''
      | ParserError \<Rightarrow> ''ParserError''
      | UnicodeEncodeError \<Rightarrow> ''UnicodeEncodeError'')"

text \<open>
  The body of the \<^verbatim>\<open>try\<close> of lines 170 to 176 for one regular file: what it raises is
  caught and printed.
\<close>

definition screenshot :: "datetime \<Rightarrow> datetime \<Rightarrow> path \<Rightarrow> string \<Rightarrow> path \<Rightarrow> world \<Rightarrow> run" where
  "screenshot start end file_path file_name screenshots_output_dir w =
     (case getmtime w file_path of
        Inl e \<Rightarrow> ([''Error processing file '' @ file_name @ '': '' @ describe e], w, None)
      | Inr file_date \<Rightarrow>
          if start \<le> file_date \<and> file_date \<le> end then
            (case copy file_path screenshots_output_dir w of
               Inl e \<Rightarrow> ([''Error processing file '' @ file_name @ '': '' @ describe e], w, None)
             | Inr w' \<Rightarrow> ([''Copied screenshot: '' @ file_name], w', None))
          else ([], w, None))"

fun screenshot_files ::
  "datetime \<Rightarrow> datetime \<Rightarrow> path \<Rightarrow> path \<Rightarrow> string list \<Rightarrow> world \<Rightarrow> run" where
  "screenshot_files start end screenshots_path screenshots_output_dir [] w = ([], w, None)"
| "screenshot_files start end screenshots_path screenshots_output_dir (file_name # rest) w =
     (if isfile w (join screenshots_path file_name) then
        then_run
          (screenshot start end (join screenshots_path file_name) file_name
             screenshots_output_dir w)
          (screenshot_files start end screenshots_path screenshots_output_dir rest)
      else screenshot_files start end screenshots_path screenshots_output_dir rest w)"

definition process_screenshots :: "string \<Rightarrow> string \<Rightarrow> world \<Rightarrow> run" where
  "process_screenshots start_date end_date w0 =
     (let w = load_dotenv w0;
          screenshots_path = getenv w ''SCREENSHOTS_PATH'';
          output_dir = getenv w ''OUTPUT_PATH'';
          no_source = ([''Screenshots path not found or not specified in .env file.''], w, None);
          no_output = ([''Output path not specified in .env file.''], w, None)
      in case screenshots_path of
           None \<Rightarrow> no_source
         | Some sp \<Rightarrow>
             if sp = [] \<or> \<not> path_exists w sp then no_source
             else
               (case output_dir of
                  None \<Rightarrow> no_output
                | Some od \<Rightarrow>
                    if od = [] then no_output
                    else
                      (case makedirs (join od ''screenshots'') w of
                         Inl e \<Rightarrow> ([], w, Some e)
                       | Inr w1 \<Rightarrow>
                      (case strptime_date start_date of
                         Inl e \<Rightarrow> ([], w1, Some e)
                       | Inr start \<Rightarrow>
                      (case strptime_date end_date of
                         Inl e \<Rightarrow> ([], w1, Some e)
                       | Inr end \<Rightarrow>
                      (case listdir w1 sp of
                         Inl e \<Rightarrow> ([], w1, Some e)
                       | Inr names \<Rightarrow>
                           screenshot_files start end sp (join od ''screenshots'') names w1))))))"

definition process_all_data :: "(json \<Rightarrow> string) \<Rightarrow> string \<Rightarrow> string \<Rightarrow> world \<Rightarrow> run" where
  "process_all_data repr start_date end_date w =
     then_run (process_spotify_data repr start_date end_date w)
       (process_screenshots start_date end_date)"

section \<open>Notions used to state the properties\<close>

text \<open>
  An entry is kept by the comprehension when its timestamp can be read and lies in the
  range. A row as it stands in the frame after line 26: its date cell converted.
\<close>

definition keeps :: "datetime \<Rightarrow> datetime \<Rightarrow> json \<Rightarrow> bool" where
  "keeps start end entry =
     (case entry_time entry of Inl e \<Rightarrow> False | Inr ts \<Rightarrow> start \<le> ts \<and> ts \<le> end)"

definition converted_row :: "(cell \<Rightarrow> error + datetime option) \<Rightarrow> nat \<Rightarrow> cell list \<Rightarrow> cell list" where
  "converted_row parse i r =
     (case to_datetime parse (cell_at r i) of Inl e \<Rightarrow> r | Inr c \<Rightarrow> set_cell r i c)"

text \<open>
  The library reads back the timestamps it printed: the date column \<open>i\<close> of the frame
  read from the text written for \<open>df\<close>, converted, holds the cells of that column of
  \<open>df\<close>.
\<close>

definition reads_back ::
  "(cell \<Rightarrow> error + datetime option) \<Rightarrow> (datetime list \<Rightarrow> datetime \<Rightarrow> string)
     \<Rightarrow> dataframe \<Rightarrow> nat \<Rightarrow> bool" where
  "reads_back parse fmt df i =
     (map (\<lambda>r. to_datetime parse (cell_at r i)) (rows (load_table (to_text fmt df)))
        = map (\<lambda>r. Inr (cell_at r i)) (rows df))"

subsection \<open>The scenarios of the specification, as concrete inputs\<close>

text \<open>
  A conversion for the date column that reads the text \<^verbatim>\<open>YYYY-MM-DD\<close>, and a printer of timestamps
  that leaves the time of day out of a column of midnights; a \<^verbatim>\<open>repr\<close> and two encodings
  (one that encodes every text, one that encodes ASCII only).
\<close>

definition iso_dates :: "cell \<Rightarrow> error + datetime option" where
  "iso_dates c =
     (case c of
        Raw s \<Rightarrow> (case strptime_date s of Inl e \<Rightarrow> Inl e | Inr t \<Rightarrow> Inr (Some t))
      | _ \<Rightarrow> Inl ValueError)"

definition two_digits :: "nat \<Rightarrow> string" where
  "two_digits n = [digit_char (n div 10), digit_char n]"

definition midnight :: "datetime \<Rightarrow> bool" where
  "midnight t = (case t of (y, m, d, H, M, S, f) \<Rightarrow> H = 0 \<and> M = 0 \<and> S = 0 \<and> f = 0)"

definition iso_text :: "datetime list \<Rightarrow> datetime \<Rightarrow> string" where
  "iso_text ts t =
     (case t of (y, m, d, H, M, S, f) \<Rightarrow>
        show_nat y @ ''-'' @ two_digits m @ ''-'' @ two_digits d @
        (if list_all midnight ts then []
         else '' '' @ two_digits H @ '':'' @ two_digits M @ '':'' @ two_digits S))"

definition brackets :: "json \<Rightarrow> string" where
  "brackets v = ''[...]''"

definition any_text :: "string \<Rightarrow> bool" where
  "any_text s = True"

definition ascii_text :: "string \<Rightarrow> bool" where
  "ascii_text s = list_all (\<lambda>c. (of_char c :: nat) < 128) s"

text \<open>
  Two log entries at the two ends of the last week of 2023; a table with one date before,
  one inside and one after that week, and the frame read from it; a table whose date
  column holds a word that is not a date; a table with a line whose date is missing; the
  frame the tabular filter returns for the first and the last, with the table written
  from it; and a table with a column of codes, one of them \<^verbatim>\<open>007\<close>, with the frame the
  filter returns for it, the table written from that frame and the frame the filter
  returns for that table.
\<close>

definition first_entry :: json where
  "first_entry = JObj
     [(''ts'', JStr ''2023-12-24T00:00:00Z''),
      (''master_metadata_track_name'', JStr ''Silent Night''),
      (''master_metadata_album_artist_name'', JStr ''Choir''),
      (''master_metadata_album_album_name'', JStr ''Carols''),
      (''platform'', JStr ''ios''),
      (''ms_played'', JNum 180000)]"

definition last_entry :: json where
  "last_entry = JObj
     [(''ts'', JStr ''2023-12-31T23:59:59Z''),
      (''master_metadata_track_name'', JStr ''Auld Lang Syne''),
      (''master_metadata_album_artist_name'', JStr ''Band''),
      (''master_metadata_album_album_name'', JStr ''Hogmanay''),
      (''platform'', JStr ''android''),
      (''ms_played'', JNum 1000)]"

definition dated_table :: table where
  "dated_table = \<lparr>header = [''date'', ''note''],
     lines = [[Some ''2023-12-20'', Some ''a''], [Some ''2023-12-25'', Some ''b''],
              [Some ''2024-01-02'', Some ''c'']]\<rparr>"

definition dated_rows :: dataframe where
  "dated_rows = \<lparr>columns = [''date'', ''note''],
     rows = [[Raw ''2023-12-20'', Raw ''a''], [Raw ''2023-12-25'', Raw ''b''],
             [Raw ''2024-01-02'', Raw ''c'']]\<rparr>"

definition undated_table :: table where
  "undated_table = \<lparr>header = [''date'', ''note''],
     lines = [[Some ''2023-12-25'', Some ''x''], [Some ''yesterday'', Some ''y'']]\<rparr>"

definition gapped_table :: table where
  "gapped_table = \<lparr>header = [''date'', ''note''],
     lines = [[Some ''2023-12-25'', Some ''b''], [None, Some ''g'']]\<rparr>"

definition gapped_rows :: dataframe where
  "gapped_rows = \<lparr>columns = [''date'', ''note''],
     rows = [[Raw ''2023-12-25'', Raw ''b''], [NaN, Raw ''g'']]\<rparr>"

definition kept_rows :: dataframe where
  "kept_rows = \<lparr>columns = [''date'', ''note''], rows = [[Stamp (2023, 12, 25, 0, 0, 0, 0), Raw ''b'']]\<rparr>"

definition kept_table :: table where
  "kept_table = \<lparr>header = [''date'', ''note''], lines = [[Some ''2023-12-25'', Some ''b'']]\<rparr>"

definition coded_table :: table where
  "coded_table = \<lparr>header = [''date'', ''code''],
     lines = [[Some ''2023-12-25'', Some ''007''], [Some ''2024-01-02'', Some ''abc'']]\<rparr>"

definition coded_rows :: dataframe where
  "coded_rows = \<lparr>columns = [''date'', ''code''],
     rows = [[Stamp (2023, 12, 25, 0, 0, 0, 0), Raw ''007'']]\<rparr>"

definition recoded_table :: table where
  "recoded_table = \<lparr>header = [''date'', ''code''], lines = [[Some ''2023-12-25'', Some ''007'']]\<rparr>"

definition recoded_rows :: dataframe where
  "recoded_rows = \<lparr>columns = [''date'', ''code''],
     rows = [[Stamp (2023, 12, 25, 0, 0, 0, 0), Num 7]]\<rparr>"

definition scenario :: world where
  "scenario = \<lparr>environ = Map.empty, dotenv = Map.empty,
     nodes = [''history.json'' \<mapsto> File (Json (JArr [first_entry, last_entry])) (2024, 1, 1, 0, 0, 0, 0),
              ''rows.csv'' \<mapsto> File (Csv dated_table) (2024, 1, 1, 0, 0, 0, 0),
              ''broken.csv'' \<mapsto> File (Csv undated_table) (2024, 1, 1, 0, 0, 0, 0),
              ''gaps.csv'' \<mapsto> File (Csv gapped_table) (2024, 1, 1, 0, 0, 0, 0),
              ''codes.csv'' \<mapsto> File (Csv coded_table) (2024, 1, 1, 0, 0, 0, 0)],
     clock = (2024, 2, 1, 0, 0, 0, 0), encodes = any_text\<rparr>"

subsection \<open>Notions and inputs for the exporter and the orchestrations\<close>

text \<open>
  A path that is a directory; a path variable that is not set, is empty or names nothing
  (the test of lines 121 and 153); a variable that is not set or empty (lines 124 and
  156). Both read the environment as \<^verbatim>\<open>load_dotenv\<close> leaves it.
\<close>

definition is_dir :: "world \<Rightarrow> path \<Rightarrow> bool" where
  "is_dir w p = (case nodes w p of Some (Dir names) \<Rightarrow> True | _ \<Rightarrow> False)"

definition not_found :: "world \<Rightarrow> string \<Rightarrow> bool" where
  "not_found w k =
     (case getenv (load_dotenv w) k of None \<Rightarrow> True | Some p \<Rightarrow> p = [] \<or> \<not> path_exists w p)"

definition unset :: "world \<Rightarrow> string \<Rightarrow> bool" where
  "unset w k = (case getenv (load_dotenv w) k of None \<Rightarrow> True | Some p \<Rightarrow> p = [])"

text \<open>
  What a call of the exporter needs of its paths to reach the loop: the output directory
  is not the empty path and does not end with a separator, the two dates hold no
  separator, no regular file stands where the directory or one of the directories above
  it has to be, and the path of the journal is not a directory.
\<close>

definition exportable :: "world \<Rightarrow> path \<Rightarrow> string \<Rightarrow> string \<Rightarrow> bool" where
  "exportable w output_dir start_date end_date =
     (output_dir \<noteq> [] \<and> last output_dir \<noteq> CHR ''/'' \<and>
      CHR ''/'' \<notin> set start_date \<and> CHR ''/'' \<notin> set end_date \<and>
      list_all (\<lambda>q. \<not> isfile w q) (ancestors output_dir @ [output_dir]) \<and>
      \<not> is_dir w (join output_dir (journal_name start_date end_date)))"

text \<open>
  The six keys the exporter subscripts; an entry that is an object with all of them; and
  a list of entries whose blocks, where they can be formatted, can all be encoded.
\<close>

definition journal_fields :: "string list" where
  "journal_fields = [''ts'', ''master_metadata_track_name'', ''master_metadata_album_artist_name'',
     ''master_metadata_album_album_name'', ''platform'', ''ms_played'']"

definition has_fields :: "json \<Rightarrow> bool" where
  "has_fields entry =
     (case entry of
        JObj kvs \<Rightarrow> list_all (\<lambda>k. map_of kvs k \<noteq> None) journal_fields
      | _ \<Rightarrow> False)"

definition encodable :: "(string \<Rightarrow> bool) \<Rightarrow> (json \<Rightarrow> string) \<Rightarrow> json list \<Rightarrow> bool" where
  "encodable enc repr entries =
     list_all (\<lambda>x. case journal_entry repr x of Inl e \<Rightarrow> True | Inr block \<Rightarrow> enc block) entries"

text \<open>
  An entry whose names are null, as the export has them for a podcast, and its block; an
  entry without the key \<^verbatim>\<open>platform\<close>; an entry whose track name is not ASCII; a world with
  two export files, a source of screenshots and an output path in the \<^verbatim>\<open>.env\<close> file; and
  that world with a journal of the same week written earlier.
\<close>

definition boxing_entry :: json where
  "boxing_entry = JObj
     [(''ts'', JStr ''2023-12-26T10:00:00Z''),
      (''master_metadata_track_name'', JNull),
      (''master_metadata_album_artist_name'', JNull),
      (''master_metadata_album_album_name'', JNull),
      (''platform'', JStr ''web''),
      (''ms_played'', JNum 42)]"

definition partial_entry :: json where
  "partial_entry = JObj
     [(''ts'', JStr ''2023-12-27T08:30:00Z''),
      (''master_metadata_track_name'', JStr ''Podcast''),
      (''master_metadata_album_artist_name'', JStr ''Host''),
      (''master_metadata_album_album_name'', JStr ''Show''),
      (''ms_played'', JNum 5)]"

definition boxing_block :: string where
  "boxing_block = unlines
     [''Date: 2023-12-26T10:00:00Z'', ''Track: None'', ''Artist: None'', ''Album: None'',
      ''Platform: web'', ''Time Played: 42 ms'', ''---'']"

definition accented_entry :: json where
  "accented_entry = JObj
     [(''ts'', JStr ''2023-12-28T20:00:00Z''),
      (''master_metadata_track_name'', JStr [CHR ''N'', CHR ''o'', CHR 0xEB, CHR ''l'']),
      (''master_metadata_album_artist_name'', JStr ''Choir''),
      (''master_metadata_album_album_name'', JStr ''Carols''),
      (''platform'', JStr ''ios''),
      (''ms_played'', JNum 7)]"

definition export :: world where
  "export = \<lparr>environ = [''SPOTIFY_DATA_PATH'' \<mapsto> ''spotify'', ''SCREENSHOTS_PATH'' \<mapsto> ''shots''],
     dotenv = [''OUTPUT_PATH'' \<mapsto> ''out''],
     nodes = [''spotify'' \<mapsto> Dir [''Streaming_History_Audio_2022-2023_0.json'',
                                  ''Streaming_History_Audio_2023-2024_1.json'', ''notes.txt''],
              ''spotify/Streaming_History_Audio_2022-2023_0.json'' \<mapsto>
                 File (Json (JArr [first_entry])) (2024, 1, 1, 0, 0, 0, 0),
              ''spotify/Streaming_History_Audio_2023-2024_1.json'' \<mapsto>
                 File (Json (JArr [boxing_entry, last_entry])) (2024, 1, 1, 0, 0, 0, 0),
              ''spotify/notes.txt'' \<mapsto> File (Blob ''hello'') (2023, 12, 25, 9, 0, 0, 0),
              ''shots'' \<mapsto> Dir []],
     clock = (2024, 2, 1, 0, 0, 0, 0), encodes = any_text\<rparr>"

definition earlier_journal :: "string list" where
  "earlier_journal = [unlines
     [''Date: 2023-12-25T12:00:00Z'', ''Track: Carol'', ''Artist: Singer'', ''Album: Noel'',
      ''Platform: ios'', ''Time Played: 200000 ms'', ''---'']]"

definition archive :: world where
  "archive = export\<lparr>nodes := (nodes export)
     (''out'' \<mapsto> Dir [''spotify_journal_2023-12-24_to_2023-12-31.txt''],
      ''out/spotify_journal_2023-12-24_to_2023-12-31.txt'' \<mapsto>
         File (Journal earlier_journal) (2024, 1, 15, 0, 0, 0, 0))\<rparr>"

section \<open>Properties of the filters\<close>

declare show_nat.simps [simp del]

lemmas strptime_defs = strptime_ts_def strptime_date_def ts_format_def date_format_def
  directive_Y_def directive_m_def directive_d_def directive_H_def directive_M_def directive_S_def digits_def nonzero_def int_of_def digit_val_def
  make_datetime_def days_in_month_def is_leap_def

lemmas load_defs = read_csv_def load_table_def load_row_def load_cell_def numeric_def field_at_def
  is_int_text_def int_of_text_def

lemma to_datetime_simps [simp]:
  "to_datetime parse (Stamp t) = Inr (Stamp t)"
  "to_datetime parse NaN = Inr NaT"
  "to_datetime parse NaT = Inr NaT"
  by (simp_all add: to_datetime_def)

lemma comprehension_Inr:
  "comprehension start end xs = Inr out \<Longrightarrow>
     out = filter (keeps start end) xs \<and> (\<forall>x\<in>set xs. \<exists>ts. entry_time x = Inr ts)"
proof (induction xs arbitrary: out)
  case Nil
  then show ?case by simp
next
  case (Cons x xs)
  from Cons.prems obtain ts kept where
    ts: "entry_time x = Inr ts" and kept: "comprehension start end xs = Inr kept"
    and out: "out = (if start \<le> ts \<and> ts \<le> end then x # kept else kept)"
    by (auto simp del: split_paired_Ex split: sum.splits)
  from Cons.IH[OF kept] ts out show ?case
    by (auto simp del: split_paired_Ex simp: keeps_def)
qed

lemma comprehension_total:
  "(\<forall>x\<in>set xs. \<exists>ts. entry_time x = Inr ts) \<Longrightarrow>
     comprehension start end xs = Inr (filter (keeps start end) xs)"
  by (induction xs) (auto simp del: split_paired_Ex simp: keeps_def)

lemma convert_rows_Inr:
  "convert_rows parse i rs = Inr cs \<Longrightarrow> cs = map (converted_row parse i) rs"
proof (induction rs arbitrary: cs)
  case Nil
  then show ?case by simp
next
  case (Cons r rs)
  then show ?case
    by (auto simp: converted_row_def split: sum.splits)
qed

lemma convert_rows_ok:
  "convert_rows parse i rs = Inr cs \<Longrightarrow> r \<in> set rs \<Longrightarrow> \<exists>c. to_datetime parse (cell_at r i) = Inr c"
  by (induction rs arbitrary: cs) (auto split: sum.splits)

lemma cell_at_set_cell: "cell_at (set_cell r i c) i = c"
proof -
  have "i < length (r @ replicate (Suc i - length r) NaN)" by simp
  then show ?thesis by (simp add: cell_at_def set_cell_def del: length_append length_replicate)
qed

lemma set_cell_same: "cell_at r i = Stamp t \<Longrightarrow> set_cell r i (Stamp t) = r"
  by (auto simp: cell_at_def set_cell_def list_update_same_conv split: if_splits)

lemma convert_rows_stamped:
  "(\<forall>r\<in>set rs. \<exists>t. cell_at r i = Stamp t) \<Longrightarrow> convert_rows parse i rs = Inr rs"
  by (induction rs) (auto simp: set_cell_same)

lemma filter_spotify_data_Inr:
  assumes "filter_spotify_data w p s e = Inr out"
  obtains start "end" data entries where
    "strptime_date s = Inr start" "strptime_date e = Inr end"
    "json_load w p = Inr data" "iterate data = Inr entries"
    "comprehension start end entries = Inr out"
  using assms by (auto simp: filter_spotify_data_def simp del: split_paired_Ex split_paired_All split: sum.splits)

lemma filter_data_by_date_Inr:
  assumes "filter_data_by_date parse w p s e c = Inr out"
  obtains start "end" data i converted where
    "read_csv w p = Inr data" "column_index c (columns data) = Some i"
    "convert_rows parse i (rows data) = Inr converted"
    "strptime_date s = Inr start" "strptime_date e = Inr end"
    "out = \<lparr>columns = columns data, rows = filter (in_range start end i) converted\<rparr>"
  using assms by (auto simp: filter_data_by_date_def simp del: split_paired_Ex split_paired_All split: sum.splits option.splits)

lemma cell_at_set_cell_other: "j \<noteq> i \<Longrightarrow> cell_at (set_cell r i c) j = cell_at r j"
  by (auto simp: cell_at_def set_cell_def nth_append nth_list_update)

lemma to_datetime_shape:
  "to_datetime parse x = Inr c \<Longrightarrow> c = NaT \<or> (\<exists>t. c = Stamp t)"
  by (auto simp: to_datetime_def simp del: split_paired_Ex
      split: cell.splits sum.splits option.splits)

lemma scenario_log_filter: "filter_spotify_data scenario ''history.json'' ''2023-12-24'' ''2023-12-31'' = Inr [first_entry]"
  by (simp add: filter_spotify_data_def scenario_def json_load_def first_entry_def last_entry_def entry_time_def strptime_defs)

lemma scenario_tabular_filter: "filter_data_by_date iso_dates scenario ''rows.csv'' ''2023-12-24'' ''2023-12-31'' ''date''
   = Inr \<lparr>columns = [''date'', ''note''], rows = [[Stamp (2023,12,25,0,0,0,0), Raw ''b'']]\<rparr>"
  by (simp add: filter_data_by_date_def scenario_def load_defs dated_table_def to_datetime_def
      iso_dates_def in_range_def cell_at_def set_cell_def strptime_defs)

text \<open>
  C7. The records that survive a filter stand in its output in the order they had in
  the input: the output of the log filter is a subsequence of the entries read, and the
  rows the tabular filter returns are a subsequence of the rows of the frame (with the
  date column converted, as line 26 leaves them).
\<close>

theorem filter_keeps_input_order:
  "(json_load w p = Inr data \<and> iterate data = Inr entries \<and>
      filter_spotify_data w p s e = Inr out \<longrightarrow> subseq out entries) \<and>
   (read_csv w' p' = Inr frame \<and> column_index c (columns frame) = Some i \<and>
      filter_data_by_date parse w' p' s' e' c = Inr out' \<longrightarrow>
      subseq (rows out') (map (converted_row parse i) (rows frame)))"
proof (intro conjI impI)
  assume h: "json_load w p = Inr data \<and> iterate data = Inr entries \<and>
      filter_spotify_data w p s e = Inr out"
  then obtain start "end" where "comprehension start end entries = Inr out"
    by (auto elim!: filter_spotify_data_Inr)
  then have "out = filter (keeps start end) entries"
    by (simp add: comprehension_Inr)
  then show "subseq out entries" by simp
next
  assume h: "read_csv w' p' = Inr frame \<and> column_index c (columns frame) = Some i \<and>
      filter_data_by_date parse w' p' s' e' c = Inr out'"
  then obtain start "end" converted where
    cv: "convert_rows parse i (rows frame) = Inr converted"
    and out: "out' = \<lparr>columns = columns frame, rows = filter (in_range start end i) converted\<rparr>"
    by (auto elim!: filter_data_by_date_Inr)
  from cv have "converted = map (converted_row parse i) (rows frame)"
    by (rule convert_rows_Inr)
  with out show "subseq (rows out') (map (converted_row parse i) (rows frame))" by simp
qed

theorem filter_keeps_input_order_witness:
  "filter_spotify_data scenario ''history.json'' ''2023-12-24'' ''2023-12-31'' = Inr [first_entry] \<and>
   subseq [first_entry] [first_entry, last_entry] \<and>
   filter_data_by_date iso_dates scenario ''rows.csv'' ''2023-12-24'' ''2023-12-31'' ''date''
     = Inr \<lparr>columns = [''date'', ''note''], rows = [[Stamp (2023,12,25,0,0,0,0), Raw ''b'']]\<rparr> \<and>
   subseq [[Stamp (2023,12,25,0,0,0,0), Raw ''b'']] (map (converted_row iso_dates 0) (rows dated_rows))"
  using filter_keeps_input_order[of scenario "''history.json''" "JArr [first_entry, last_entry]"
      "[first_entry, last_entry]" "''2023-12-24''" "''2023-12-31''" "[first_entry]"
      scenario "''rows.csv''" dated_rows "''date''" 0 iso_dates "''2023-12-24''" "''2023-12-31''"
      "\<lparr>columns = [''date'', ''note''], rows = [[Stamp (2023,12,25,0,0,0,0), Raw ''b'']]\<rparr>"]
    scenario_log_filter scenario_tabular_filter
  by (simp add: scenario_def json_load_def load_defs dated_rows_def dated_table_def digits_def)

lemma keeps_iff:
  "entry_time x = Inr ts \<Longrightarrow> keeps start end x \<longleftrightarrow> start \<le> ts \<and> ts \<le> end"
  by (simp add: keeps_def)

lemma converted_cell_shape:
  assumes "convert_rows parse i rs = Inr cs" and "r \<in> set cs"
  shows "cell_at r i = NaT \<or> (\<exists>t. cell_at r i = Stamp t)"
proof -
  from assms(1) have "cs = map (converted_row parse i) rs" by (rule convert_rows_Inr)
  with assms(2) obtain r0 where r0: "r0 \<in> set rs" and r: "r = converted_row parse i r0" by auto
  from convert_rows_ok[OF assms(1) r0] obtain c where c: "to_datetime parse (cell_at r0 i) = Inr c"
    by blast
  with r have "cell_at r i = c" by (simp add: converted_row_def cell_at_set_cell)
  with to_datetime_shape[OF c] show ?thesis by simp
qed

lemma in_range_iff:
  "cell_at r i = Stamp t \<Longrightarrow> in_range start end i r \<longleftrightarrow> start \<le> t \<and> t \<le> end"
  by (simp add: in_range_def)

lemma in_range_Stamp:
  "in_range start end i r \<Longrightarrow> \<exists>t. cell_at r i = Stamp t \<and> start \<le> t \<and> t \<le> end"
  by (auto simp: in_range_def simp del: split_paired_Ex split: cell.splits)

lemma scenario_json:
  "json_load scenario ''history.json'' = Inr (JArr [first_entry, last_entry])"
  by (simp add: scenario_def json_load_def)

lemma scenario_csv: "read_csv scenario ''rows.csv'' = Inr dated_rows"
  by (simp add: scenario_def load_defs dated_rows_def dated_table_def digits_def)

lemma strptime_week:
  "strptime_date ''2023-12-24'' = Inr (2023, 12, 24, 0, 0, 0, 0)"
  "strptime_date ''2023-12-31'' = Inr (2023, 12, 31, 0, 0, 0, 0)"
  by (simp_all add: strptime_defs)

lemma ts_first: "strptime_ts ''2023-12-24T00:00:00Z'' = Inr (2023, 12, 24, 0, 0, 0, 0)"
  by (simp add: strptime_defs)

lemma ts_last: "strptime_ts ''2023-12-31T23:59:59Z'' = Inr (2023, 12, 31, 23, 59, 59, 0)"
  by (simp add: strptime_defs)

lemma scenario_gaps: "read_csv scenario ''gaps.csv'' = Inr gapped_rows"
  by (simp add: scenario_def load_defs gapped_rows_def gapped_table_def digits_def)

text \<open>
  C5 as the specification states it fails for the tabular filter: a row whose date is
  missing is left out of the output, and it has no timestamp, so it has none strictly
  outside the range.
\<close>

theorem excluded_row_without_timestamp_counterexample:
  "read_csv scenario ''gaps.csv'' = Inr gapped_rows \<and>
   [NaN, Raw ''g''] \<in> set (rows gapped_rows) \<and>
   filter_data_by_date iso_dates scenario ''gaps.csv'' ''2023-12-24'' ''2023-12-31'' ''date''
     = Inr kept_rows \<and>
   converted_row iso_dates 0 [NaN, Raw ''g''] = [NaT, Raw ''g''] \<and>
   [NaT, Raw ''g''] \<notin> set (rows kept_rows) \<and>
   cell_at [NaT, Raw ''g''] 0 = NaT"
  by (simp add: scenario_gaps filter_data_by_date_def gapped_rows_def kept_rows_def iso_dates_def
      to_datetime_def converted_row_def in_range_def cell_at_def set_cell_def strptime_defs)

text \<open>
  C5, amended. Each filter returns part of its input and splits it at the two ends of
  the range. For the log filter: the output is a subset of the entries read; every entry
  kept has a timestamp \<open>ts\<close> with \<open>start \<le> ts \<le> end\<close>; every entry with such a
  timestamp is kept, so one whose timestamp equals the parsed start or the parsed end is
  kept (for a range with \<open>start \<le> end\<close>); and every entry left out has a timestamp
  strictly before the start or strictly after the end. For the tabular filter the same
  holds of the rows of the frame with the date column converted, whose other cells are
  those of the input, except that a row left out either has a timestamp strictly outside
  the range or has no timestamp at all (\<^verbatim>\<open>NaT\<close>, from a missing date).
\<close>

theorem filter_partitions_by_range:
  "(strptime_date s = Inr start \<and> strptime_date e = Inr end \<and>
    json_load w p = Inr data \<and> iterate data = Inr entries \<and>
    filter_spotify_data w p s e = Inr out \<longrightarrow>
      set out \<subseteq> set entries \<and>
      (\<forall>x\<in>set out. \<exists>ts. entry_time x = Inr ts \<and> start \<le> ts \<and> ts \<le> end) \<and>
      (\<forall>x\<in>set entries. \<forall>ts. entry_time x = Inr ts \<and> start \<le> ts \<and> ts \<le> end \<longrightarrow> x \<in> set out) \<and>
      (\<forall>x\<in>set entries. start \<le> end \<and> (entry_time x = Inr start \<or> entry_time x = Inr end)
          \<longrightarrow> x \<in> set out) \<and>
      (\<forall>x\<in>set entries - set out. \<exists>ts. entry_time x = Inr ts \<and> (ts < start \<or> end < ts))) \<and>
   (strptime_date s' = Inr start' \<and> strptime_date e' = Inr end' \<and>
    read_csv w' p' = Inr frame \<and> column_index c (columns frame) = Some i \<and>
    filter_data_by_date parse w' p' s' e' c = Inr out' \<longrightarrow>
      columns out' = columns frame \<and>
      set (rows out') \<subseteq> set (map (converted_row parse i) (rows frame)) \<and>
      (\<forall>r\<in>set (rows frame). \<forall>j. j \<noteq> i \<longrightarrow> cell_at (converted_row parse i r) j = cell_at r j) \<and>
      (\<forall>r\<in>set (rows out'). \<exists>t. cell_at r i = Stamp t \<and> start' \<le> t \<and> t \<le> end') \<and>
      (\<forall>r\<in>set (map (converted_row parse i) (rows frame)).
          \<forall>t. cell_at r i = Stamp t \<and> start' \<le> t \<and> t \<le> end' \<longrightarrow> r \<in> set (rows out')) \<and>
      (\<forall>r\<in>set (map (converted_row parse i) (rows frame)).
          start' \<le> end' \<and> (cell_at r i = Stamp start' \<or> cell_at r i = Stamp end')
          \<longrightarrow> r \<in> set (rows out')) \<and>
      (\<forall>r\<in>set (map (converted_row parse i) (rows frame)) - set (rows out').
          cell_at r i = NaT \<or> (\<exists>t. cell_at r i = Stamp t \<and> (t < start' \<or> end' < t))))"
proof (rule conjI; rule impI)
  assume h: "strptime_date s = Inr start \<and> strptime_date e = Inr end \<and>
    json_load w p = Inr data \<and> iterate data = Inr entries \<and>
    filter_spotify_data w p s e = Inr out"
  then have "comprehension start end entries = Inr out"
    by (auto elim!: filter_spotify_data_Inr)
  then have out: "out = filter (keeps start end) entries"
    and ok: "\<forall>x\<in>set entries. \<exists>ts. entry_time x = Inr ts"
    by (simp_all add: comprehension_Inr del: split_paired_Ex)
  show "set out \<subseteq> set entries \<and>
      (\<forall>x\<in>set out. \<exists>ts. entry_time x = Inr ts \<and> start \<le> ts \<and> ts \<le> end) \<and>
      (\<forall>x\<in>set entries. \<forall>ts. entry_time x = Inr ts \<and> start \<le> ts \<and> ts \<le> end \<longrightarrow> x \<in> set out) \<and>
      (\<forall>x\<in>set entries. start \<le> end \<and> (entry_time x = Inr start \<or> entry_time x = Inr end)
          \<longrightarrow> x \<in> set out) \<and>
      (\<forall>x\<in>set entries - set out. \<exists>ts. entry_time x = Inr ts \<and> (ts < start \<or> end < ts))"
  proof (intro conjI ballI allI impI)
    show "set out \<subseteq> set entries" using out by auto
  next
    fix x assume "x \<in> set out"
    with out have x: "x \<in> set entries" and k: "keeps start end x" by auto
    from ok x obtain ts where ts: "entry_time x = Inr ts" by blast
    with k show "\<exists>ts. entry_time x = Inr ts \<and> start \<le> ts \<and> ts \<le> end"
      by (simp add: keeps_def del: split_paired_Ex)
  next
    fix x ts assume "x \<in> set entries" "entry_time x = Inr ts \<and> start \<le> ts \<and> ts \<le> end"
    then show "x \<in> set out" using out by (simp add: keeps_def)
  next
    fix x assume "x \<in> set entries"
      "start \<le> end \<and> (entry_time x = Inr start \<or> entry_time x = Inr end)"
    then show "x \<in> set out" using out by (auto simp: keeps_def)
  next
    fix x assume "x \<in> set entries - set out"
    with out have x: "x \<in> set entries" and k: "\<not> keeps start end x" by auto
    from ok x obtain ts where ts: "entry_time x = Inr ts" by blast
    with k have "ts < start \<or> end < ts" by (auto simp: keeps_def)
    with ts show "\<exists>ts. entry_time x = Inr ts \<and> (ts < start \<or> end < ts)" by blast
  qed
next
  assume h: "strptime_date s' = Inr start' \<and> strptime_date e' = Inr end' \<and>
    read_csv w' p' = Inr frame \<and> column_index c (columns frame) = Some i \<and>
    filter_data_by_date parse w' p' s' e' c = Inr out'"
  then obtain converted where
    cv: "convert_rows parse i (rows frame) = Inr converted"
    and out: "out' = \<lparr>columns = columns frame, rows = filter (in_range start' end' i) converted\<rparr>"
    by (auto elim!: filter_data_by_date_Inr)
  from cv have conv: "converted = map (converted_row parse i) (rows frame)"
    by (rule convert_rows_Inr)
  show "columns out' = columns frame \<and>
      set (rows out') \<subseteq> set (map (converted_row parse i) (rows frame)) \<and>
      (\<forall>r\<in>set (rows frame). \<forall>j. j \<noteq> i \<longrightarrow> cell_at (converted_row parse i r) j = cell_at r j) \<and>
      (\<forall>r\<in>set (rows out'). \<exists>t. cell_at r i = Stamp t \<and> start' \<le> t \<and> t \<le> end') \<and>
      (\<forall>r\<in>set (map (converted_row parse i) (rows frame)).
          \<forall>t. cell_at r i = Stamp t \<and> start' \<le> t \<and> t \<le> end' \<longrightarrow> r \<in> set (rows out')) \<and>
      (\<forall>r\<in>set (map (converted_row parse i) (rows frame)).
          start' \<le> end' \<and> (cell_at r i = Stamp start' \<or> cell_at r i = Stamp end')
          \<longrightarrow> r \<in> set (rows out')) \<and>
      (\<forall>r\<in>set (map (converted_row parse i) (rows frame)) - set (rows out').
          cell_at r i = NaT \<or> (\<exists>t. cell_at r i = Stamp t \<and> (t < start' \<or> end' < t)))"
  proof (intro conjI ballI allI impI)
    show "columns out' = columns frame" using out by simp
  next
    show "set (rows out') \<subseteq> set (map (converted_row parse i) (rows frame))"
      using out conv by auto
  next
    fix r j assume "r \<in> set (rows frame)" "j \<noteq> i"
    then show "cell_at (converted_row parse i r) j = cell_at r j"
      by (simp add: converted_row_def cell_at_set_cell_other split: sum.splits)
  next
    fix r assume "r \<in> set (rows out')"
    with out have "in_range start' end' i r" by simp
    then show "\<exists>t. cell_at r i = Stamp t \<and> start' \<le> t \<and> t \<le> end'" by (rule in_range_Stamp)
  next
    fix r t assume "r \<in> set (map (converted_row parse i) (rows frame))"
      "cell_at r i = Stamp t \<and> start' \<le> t \<and> t \<le> end'"
    then show "r \<in> set (rows out')" using out conv by (simp add: in_range_def)
  next
    fix r assume "r \<in> set (map (converted_row parse i) (rows frame))"
      "start' \<le> end' \<and> (cell_at r i = Stamp start' \<or> cell_at r i = Stamp end')"
    then show "r \<in> set (rows out')" using out conv by (auto simp: in_range_def)
  next
    fix r assume r: "r \<in> set (map (converted_row parse i) (rows frame)) - set (rows out')"
    with out conv have mem: "r \<in> set converted" and nr: "\<not> in_range start' end' i r" by auto
    from converted_cell_shape[OF cv mem] show
      "cell_at r i = NaT \<or> (\<exists>t. cell_at r i = Stamp t \<and> (t < start' \<or> end' < t))"
    proof
      assume "cell_at r i = NaT" then show ?thesis by simp
    next
      assume "\<exists>t. cell_at r i = Stamp t"
      then obtain t where t: "cell_at r i = Stamp t" by blast
      with nr have "t < start' \<or> end' < t" by (auto simp: in_range_def)
      with t show ?thesis by blast
    qed
  qed
qed

theorem filter_partitions_by_range_witness:
  "strptime_date ''2023-12-24'' = Inr (2023, 12, 24, 0, 0, 0, 0) \<and>
   strptime_date ''2023-12-31'' = Inr (2023, 12, 31, 0, 0, 0, 0) \<and>
   json_load scenario ''history.json'' = Inr (JArr [first_entry, last_entry]) \<and>
   iterate (JArr [first_entry, last_entry]) = Inr [first_entry, last_entry] \<and>
   filter_spotify_data scenario ''history.json'' ''2023-12-24'' ''2023-12-31'' = Inr [first_entry] \<and>
   set [first_entry] \<subseteq> set [first_entry, last_entry] \<and>
   read_csv scenario ''rows.csv'' = Inr dated_rows \<and>
   column_index ''date'' (columns dated_rows) = Some 0 \<and>
   filter_data_by_date iso_dates scenario ''rows.csv'' ''2023-12-24'' ''2023-12-31'' ''date''
     = Inr \<lparr>columns = [''date'', ''note''], rows = [[Stamp (2023, 12, 25, 0, 0, 0, 0), Raw ''b'']]\<rparr> \<and>
   columns \<lparr>columns = [''date'', ''note''], rows = [[Stamp (2023, 12, 25, 0, 0, 0, 0), Raw ''b'']]\<rparr>
     = columns dated_rows"
  using filter_partitions_by_range[of "''2023-12-24''" "(2023, 12, 24, 0, 0, 0, 0)"
      "''2023-12-31''" "(2023, 12, 31, 0, 0, 0, 0)" scenario "''history.json''"
      "JArr [first_entry, last_entry]" "[first_entry, last_entry]" "[first_entry]"
      "''2023-12-24''" "(2023, 12, 24, 0, 0, 0, 0)" "''2023-12-31''" "(2023, 12, 31, 0, 0, 0, 0)"
      scenario "''rows.csv''" dated_rows "''date''" 0 iso_dates
      "\<lparr>columns = [''date'', ''note''], rows = [[Stamp (2023, 12, 25, 0, 0, 0, 0), Raw ''b'']]\<rparr>"]
    scenario_log_filter scenario_tabular_filter scenario_json scenario_csv strptime_week
  by (simp add: dated_rows_def)

lemma convert_rows_total:
  "(\<And>r. r \<in> set rs \<Longrightarrow> \<exists>c. to_datetime parse (cell_at r i) = Inr c) \<Longrightarrow>
     convert_rows parse i rs = Inr (map (converted_row parse i) rs)"
proof (induction rs)
  case Nil
  then show ?case by simp
next
  case (Cons r rs)
  from Cons.prems[of r] obtain c where c: "to_datetime parse (cell_at r i) = Inr c" by auto
  have "convert_rows parse i rs = Inr (map (converted_row parse i) rs)"
    by (rule Cons.IH) (simp add: Cons.prems)
  with c show ?case by (simp add: converted_row_def)
qed

lemma write_file_content:
  "write_file p c w = Inr w' \<Longrightarrow> nodes w' p = Some (File c (clock w))"
  by (auto simp: write_file_def add_child_def split: option.splits node.splits if_splits)

lemma converted_date_cells:
  assumes "map (\<lambda>r. to_datetime parse (cell_at r i)) L = map (\<lambda>r. Inr (cell_at r i)) R"
  shows "convert_rows parse i L = Inr (map (converted_row parse i) L)"
    and "map (\<lambda>r. cell_at r i) (map (converted_row parse i) L) = map (\<lambda>r. cell_at r i) R"
proof -
  from assms have len: "length L = length R" by (rule map_eq_imp_length_eq)
  have each: "to_datetime parse (cell_at (L ! k) i) = Inr (cell_at (R ! k) i)" if "k < length L" for k
  proof -
    from assms have "map (\<lambda>r. to_datetime parse (cell_at r i)) L ! k = map (\<lambda>r. Inr (cell_at r i)) R ! k"
      by simp
    with that len show ?thesis by simp
  qed
  show "convert_rows parse i L = Inr (map (converted_row parse i) L)"
  proof (rule convert_rows_total)
    fix r assume "r \<in> set L"
    then obtain k where "k < length L" "r = L ! k" by (auto simp: in_set_conv_nth)
    with each show "\<exists>c. to_datetime parse (cell_at r i) = Inr c" by blast
  qed
  show "map (\<lambda>r. cell_at r i) (map (converted_row parse i) L) = map (\<lambda>r. cell_at r i) R"
  proof (rule nth_equalityI)
    show "length (map (\<lambda>r. cell_at r i) (map (converted_row parse i) L)) = length (map (\<lambda>r. cell_at r i) R)"
      using len by simp
  next
    fix k assume "k < length (map (\<lambda>r. cell_at r i) (map (converted_row parse i) L))"
    then have k: "k < length L" by simp
    from each[OF k] have "cell_at (converted_row parse i (L ! k)) i = cell_at (R ! k) i"
      by (simp add: converted_row_def cell_at_set_cell)
    with k len show "map (\<lambda>r. cell_at r i) (map (converted_row parse i) L) ! k
        = map (\<lambda>r. cell_at r i) R ! k" by simp
  qed
qed

lemma in_range_same_cell:
  "cell_at r i = cell_at r' i \<Longrightarrow> in_range start end i r = in_range start end i r'"
  by (simp add: in_range_def)

lemma filter_keeps_all:
  assumes "map (\<lambda>r. cell_at r i) C = map (\<lambda>r. cell_at r i) R"
    and "\<And>r. r \<in> set R \<Longrightarrow> in_range start end i r"
  shows "filter (in_range start end i) C = C"
proof -
  have "in_range start end i r" if "r \<in> set C" for r
  proof -
    from that have "cell_at r i \<in> set (map (\<lambda>r. cell_at r i) C)" by simp
    with assms(1) have "cell_at r i \<in> set (map (\<lambda>r. cell_at r i) R)" by simp
    then obtain r' where "r' \<in> set R" "cell_at r i = cell_at r' i" by auto
    with assms(2) in_range_same_cell show ?thesis by blast
  qed
  then show ?thesis by simp
qed

text \<open>
  C8, amended. For the log filter, filtering a file that holds the entries the filter
  returned, with the same range, returns them again. The tabular filter reads a file, so
  its output is filtered again from the file \<^verbatim>\<open>to_csv\<close> writes: provided the library
  reads back the timestamps it printed, the second run returns a frame with the same
  columns and, row by row in the same order, the same timestamps in the date column.
  The cells of the other columns are read again from the text written.
\<close>

theorem filter_idempotent:
  "(filter_spotify_data w p s e = Inr out \<and> json_load w1 p1 = Inr (JArr out) \<longrightarrow>
      filter_spotify_data w1 p1 s e = Inr out) \<and>
   (filter_data_by_date parse w' p' s' e' c = Inr out' \<and>
    column_index c (columns out') = Some i \<and> reads_back parse fmt out' i \<and>
    to_csv fmt out' p2 w3 = ([], w2, None) \<longrightarrow>
      (\<exists>out2. filter_data_by_date parse w2 p2 s' e' c = Inr out2 \<and>
         columns out2 = columns out' \<and>
         map (\<lambda>r. cell_at r i) (rows out2) = map (\<lambda>r. cell_at r i) (rows out')))"
proof (rule conjI; rule impI)
  assume h: "filter_spotify_data w p s e = Inr out \<and> json_load w1 p1 = Inr (JArr out)"
  then obtain start "end" entries where
    s: "strptime_date s = Inr start" and e: "strptime_date e = Inr end"
    and comp: "comprehension start end entries = Inr out"
    by (auto elim!: filter_spotify_data_Inr)
  from comp have out: "out = filter (keeps start end) entries"
    and ok: "\<forall>x\<in>set entries. \<exists>ts. entry_time x = Inr ts"
    by (simp_all add: comprehension_Inr del: split_paired_Ex)
  from out ok have "\<forall>x\<in>set out. \<exists>ts. entry_time x = Inr ts" by simp
  then have "comprehension start end out = Inr (filter (keeps start end) out)"
    by (rule comprehension_total)
  also have "filter (keeps start end) out = out" by (subst (1 2) out) simp
  finally show "filter_spotify_data w1 p1 s e = Inr out"
    using h s e by (simp add: filter_spotify_data_def)
next
  assume h: "filter_data_by_date parse w' p' s' e' c = Inr out' \<and>
    column_index c (columns out') = Some i \<and> reads_back parse fmt out' i \<and>
    to_csv fmt out' p2 w3 = ([], w2, None)"
  then have f: "filter_data_by_date parse w' p' s' e' c = Inr out'"
    and ci: "column_index c (columns out') = Some i"
    and rb: "reads_back parse fmt out' i"
    and tc: "to_csv fmt out' p2 w3 = ([], w2, None)" by simp_all
  from f obtain start "end" data i' converted where
    "read_csv w' p' = Inr data"
    and ci': "column_index c (columns data) = Some i'"
    and "convert_rows parse i' (rows data) = Inr converted"
    and s: "strptime_date s' = Inr start" and e: "strptime_date e' = Inr end"
    and out: "out' = \<lparr>columns = columns data, rows = filter (in_range start end i') converted\<rparr>"
    by (rule filter_data_by_date_Inr)
  from out ci ci' have ii: "i' = i" by simp
  let ?L = "rows (load_table (to_text fmt out'))"
  let ?C = "map (converted_row parse i) ?L"
  from tc have "write_file p2 (Csv (to_text fmt out')) w3 = Inr w2"
    by (simp add: to_csv_def split: sum.splits)
  then have "nodes w2 p2 = Some (File (Csv (to_text fmt out')) (clock w3))"
    by (rule write_file_content)
  then have rd: "read_csv w2 p2 = Inr (load_table (to_text fmt out'))"
    by (simp add: read_csv_def)
  have cols: "columns (load_table (to_text fmt out')) = columns out'"
    by (simp add: load_table_def to_text_def)
  from rb have eq: "map (\<lambda>r. to_datetime parse (cell_at r i)) ?L = map (\<lambda>r. Inr (cell_at r i)) (rows out')"
    by (simp add: reads_back_def)
  note cv = converted_date_cells[OF eq]
  have "filter (in_range start end i) ?C = ?C"
    using cv(2) by (rule filter_keeps_all) (simp add: out ii)
  then have "filter_data_by_date parse w2 p2 s' e' c = Inr \<lparr>columns = columns out', rows = ?C\<rparr>"
    using rd cols ci s e cv(1) by (simp add: filter_data_by_date_def)
  with cv(2) show "\<exists>out2. filter_data_by_date parse w2 p2 s' e' c = Inr out2 \<and>
         columns out2 = columns out' \<and>
         map (\<lambda>r. cell_at r i) (rows out2) = map (\<lambda>r. cell_at r i) (rows out')"
    by simp
qed

lemmas text_defs = to_text_def store_row_def store_cell_def column_stamps_def iso_text_def
  midnight_def two_digits_def digit_char_def show_nat.simps show_int_def

lemma kept_rows_written: "to_text iso_text kept_rows = kept_table"
  by (simp add: kept_rows_def kept_table_def text_defs cell_at_def)

lemma kept_table_read:
  "load_table kept_table = \<lparr>columns = [''date'', ''note''], rows = [[Raw ''2023-12-25'', Raw ''b'']]\<rparr>"
  by (simp add: kept_table_def load_table_def load_row_def load_cell_def numeric_def field_at_def
      is_int_text_def digits_def)

lemma coded_rows_written: "to_text iso_text coded_rows = recoded_table"
  by (simp add: coded_rows_def recoded_table_def text_defs cell_at_def)

theorem filter_idempotent_witness:
  "filter_spotify_data scenario ''history.json'' ''2023-12-24'' ''2023-12-31'' = Inr [first_entry] \<and>
   json_load (scenario\<lparr>nodes := [''kept.json'' \<mapsto> File (Json (JArr [first_entry])) (clock scenario)]\<rparr>)
      ''kept.json'' = Inr (JArr [first_entry]) \<and>
   filter_spotify_data (scenario\<lparr>nodes := [''kept.json'' \<mapsto> File (Json (JArr [first_entry])) (clock scenario)]\<rparr>)
      ''kept.json'' ''2023-12-24'' ''2023-12-31'' = Inr [first_entry] \<and>
   filter_data_by_date iso_dates scenario ''rows.csv'' ''2023-12-24'' ''2023-12-31'' ''date'' = Inr kept_rows \<and>
   column_index ''date'' (columns kept_rows) = Some 0 \<and>
   reads_back iso_dates iso_text kept_rows 0 \<and>
   to_csv iso_text kept_rows ''kept.csv'' scenario =
     ([], scenario\<lparr>nodes := (nodes scenario)(''kept.csv'' \<mapsto> File (Csv kept_table) (clock scenario))\<rparr>, None) \<and>
   filter_data_by_date iso_dates
      (scenario\<lparr>nodes := (nodes scenario)(''kept.csv'' \<mapsto> File (Csv kept_table) (clock scenario))\<rparr>)
      ''kept.csv'' ''2023-12-24'' ''2023-12-31'' ''date'' = Inr kept_rows"
proof -
  let ?w2 = "scenario\<lparr>nodes := (nodes scenario)(''kept.csv'' \<mapsto> File (Csv kept_table) (clock scenario))\<rparr>"
  have a: "filter_data_by_date iso_dates scenario ''rows.csv'' ''2023-12-24'' ''2023-12-31'' ''date'' = Inr kept_rows"
    using scenario_tabular_filter by (simp add: kept_rows_def)
  have b: "column_index ''date'' (columns kept_rows) = Some 0" by (simp add: kept_rows_def)
  have c: "reads_back iso_dates iso_text kept_rows 0"
    unfolding reads_back_def kept_rows_written kept_table_read
    by (simp add: kept_rows_def cell_at_def to_datetime_def iso_dates_def strptime_defs)
  have d: "to_csv iso_text kept_rows ''kept.csv'' scenario = ([], ?w2, None)"
  proof -
    have "nodes scenario ''kept.csv'' = None" by (simp add: scenario_def)
    then show ?thesis by (simp add: to_csv_def kept_rows_written write_file_def dirname_def)
  qed
  have j: "json_load (scenario\<lparr>nodes := [''kept.json'' \<mapsto> File (Json (JArr [first_entry])) (clock scenario)]\<rparr>)
      ''kept.json'' = Inr (JArr [first_entry])"
    by (simp add: json_load_def)
  have g: "filter_data_by_date iso_dates ?w2 ''kept.csv'' ''2023-12-24'' ''2023-12-31'' ''date'' = Inr kept_rows"
    by (simp add: filter_data_by_date_def read_csv_def kept_table_read kept_rows_def
        to_datetime_def iso_dates_def in_range_def cell_at_def set_cell_def strptime_defs)
  from filter_idempotent[of scenario "''history.json''" "''2023-12-24''" "''2023-12-31''" "[first_entry]"
      "scenario\<lparr>nodes := [''kept.json'' \<mapsto> File (Json (JArr [first_entry])) (clock scenario)]\<rparr>"
      "''kept.json''" iso_dates scenario "''rows.csv''" "''2023-12-24''" "''2023-12-31''" "''date''"
      kept_rows 0 iso_text "''kept.csv''" scenario ?w2]
    scenario_log_filter a b c d j g
  show ?thesis by blast
qed

text \<open>
  C8 as the specification states it fails for the tabular filter: the row returned for a
  table with the codes \<^verbatim>\<open>007\<close> and \<^verbatim>\<open>abc\<close> holds the text \<^verbatim>\<open>007\<close>; written and filtered
  again, the same row holds the number 7, so the second result is not the first.
\<close>

theorem reread_codes_counterexample:
  "filter_data_by_date iso_dates scenario ''codes.csv'' ''2023-12-24'' ''2023-12-31'' ''date''
     = Inr coded_rows \<and>
   to_csv iso_text coded_rows ''again.csv'' scenario =
     ([], scenario\<lparr>nodes := (nodes scenario)(''again.csv'' \<mapsto> File (Csv recoded_table) (clock scenario))\<rparr>, None) \<and>
   filter_data_by_date iso_dates
      (scenario\<lparr>nodes := (nodes scenario)(''again.csv'' \<mapsto> File (Csv recoded_table) (clock scenario))\<rparr>)
      ''again.csv'' ''2023-12-24'' ''2023-12-31'' ''date'' = Inr recoded_rows \<and>
   recoded_rows \<noteq> coded_rows"
proof -
  have a: "filter_data_by_date iso_dates scenario ''codes.csv'' ''2023-12-24'' ''2023-12-31'' ''date''
     = Inr coded_rows"
    by (simp add: filter_data_by_date_def scenario_def load_defs coded_table_def coded_rows_def
        to_datetime_def iso_dates_def in_range_def cell_at_def set_cell_def strptime_defs)
  have "nodes scenario ''again.csv'' = None" by (simp add: scenario_def)
  then have b: "to_csv iso_text coded_rows ''again.csv'' scenario =
     ([], scenario\<lparr>nodes := (nodes scenario)(''again.csv'' \<mapsto> File (Csv recoded_table) (clock scenario))\<rparr>, None)"
    by (simp add: to_csv_def coded_rows_written write_file_def dirname_def)
  have c: "filter_data_by_date iso_dates
      (scenario\<lparr>nodes := (nodes scenario)(''again.csv'' \<mapsto> File (Csv recoded_table) (clock scenario))\<rparr>)
      ''again.csv'' ''2023-12-24'' ''2023-12-31'' ''date'' = Inr recoded_rows"
    by (simp add: filter_data_by_date_def load_defs recoded_table_def recoded_rows_def
        to_datetime_def iso_dates_def in_range_def cell_at_def set_cell_def strptime_defs int_of_def
        digit_val_def)
  have d: "recoded_rows \<noteq> coded_rows" by (simp add: recoded_rows_def coded_rows_def)
  from a b c d show ?thesis by simp
qed

text \<open>
  C4 as the specification states it fails: with the end of the range parsed as
  2023-12-31T00:00:00, the log filter does not leave both entries of the scenario out.
\<close>

theorem scenario_last_week_counterexample:
  "filter_spotify_data scenario ''history.json'' ''2023-12-24'' ''2023-12-31'' \<noteq> Inr []"
  by (simp add: scenario_log_filter)

text \<open>
  C4, amended. For entries with \<^verbatim>\<open>ts\<close> 2023-12-24T00:00:00Z and 2023-12-31T23:59:59Z and
  the range from 2023-12-24 to 2023-12-31, the end of the range is parsed as
  2023-12-31T00:00:00 and the log filter keeps the first entry, whose timestamp equals
  the parsed start, and leaves out only the second.
\<close>

theorem scenario_last_week:
  "json_load w p = Inr (JArr [a, b]) \<and>
   subscript a ''ts'' = Inr (JStr ''2023-12-24T00:00:00Z'') \<and>
   subscript b ''ts'' = Inr (JStr ''2023-12-31T23:59:59Z'') \<longrightarrow>
     strptime_date ''2023-12-31'' = Inr (2023, 12, 31, 0, 0, 0, 0) \<and>
     filter_spotify_data w p ''2023-12-24'' ''2023-12-31'' = Inr [a]"
  by (simp add: filter_spotify_data_def strptime_week entry_time_def ts_first ts_last)

theorem scenario_last_week_witness:
  "json_load scenario ''history.json'' = Inr (JArr [first_entry, last_entry]) \<and>
   subscript first_entry ''ts'' = Inr (JStr ''2023-12-24T00:00:00Z'') \<and>
   subscript last_entry ''ts'' = Inr (JStr ''2023-12-31T23:59:59Z'') \<and>
   filter_spotify_data scenario ''history.json'' ''2023-12-24'' ''2023-12-31'' = Inr [first_entry]"
  using scenario_last_week[of scenario "''history.json''" first_entry last_entry] scenario_json
  by (simp add: first_entry_def last_entry_def)

section \<open>Properties of the tabular batch\<close>

lemma then_run_done: "then_run (out, w, None) f = (case f w of (out', w', r') \<Rightarrow> (out @ out', w', r'))"
  by (simp add: then_run_def)

lemma then_run_raised: "then_run (out, w, Some e) f = (out, w, Some e)"
  by (simp add: then_run_def)

lemma then_run_assoc:
  "then_run (then_run r f) g = then_run r (\<lambda>w. then_run (f w) g)"
  by (cases r) (auto simp: then_run_def split: option.splits prod.splits)

lemma then_run_unit: "then_run ([], w, None) f = f w"
  by (simp add: then_run_def split: prod.splits)

lemma process_data_sources_append:
  "process_data_sources parse fmt (xs @ ys) s e w =
     then_run (process_data_sources parse fmt xs s e w) (process_data_sources parse fmt ys s e)"
proof (induction xs arbitrary: w)
  case Nil
  show ?case by (simp add: then_run_unit)
next
  case (Cons x xs)
  obtain fp dc op where x: "x = (fp, dc, op)" by (cases x)
  have IH: "process_data_sources parse fmt (xs @ ys) s e =
      (\<lambda>w. then_run (process_data_sources parse fmt xs s e w) (process_data_sources parse fmt ys s e))"
    by (rule ext) (rule Cons.IH)
  show ?case
    unfolding x
    by (simp add: IH then_run_assoc then_run_raised split: sum.splits)
qed

lemmas fs_defs = path_exists_def read_csv_def to_csv_def write_file_def dirname_def basename_def
  add_child_def then_run_def

lemmas table_defs = filter_data_by_date_def iso_dates_def in_range_def cell_at_def set_cell_def
  dated_table_def undated_table_def kept_table_def to_datetime_def load_table_def load_row_def
  load_cell_def numeric_def field_at_def is_int_text_def int_of_text_def

lemma batch_first:
  "process_data_sources iso_dates iso_text [(''rows.csv'', ''date'', ''first.csv'')] ''2023-12-24'' ''2023-12-31'' scenario
     = ([''Processing file: rows.csv'', ''Filtered data saved to: first.csv''],
        scenario\<lparr>nodes := (nodes scenario)(''first.csv'' \<mapsto> File (Csv kept_table) (clock scenario))\<rparr>, None)"
  by (simp add: scenario_def fs_defs table_defs text_defs strptime_defs)

text \<open>
  C6. A triple whose file does not exist when the loop reaches it is skipped: the batch
  prints the notice for it, writes nothing for it, and goes on with the triples after it
  from the same world, so the batch with the triple and the batch without it leave the
  same files and end the same way; they differ by the notice alone. In a batch of three
  whose second file is missing, the first and the third are filtered and written.
\<close>

theorem missing_source_is_skipped:
  "process_data_sources parse fmt xs s e w = (out1, w1, None) \<and> \<not> path_exists w1 fp \<longrightarrow>
     process_data_sources parse fmt (xs @ (fp, dc, op) # ys) s e w =
       (case process_data_sources parse fmt ys s e w1 of
          (out2, w2, r) \<Rightarrow> (out1 @ (''File not found: '' @ fp) # out2, w2, r)) \<and>
     process_data_sources parse fmt (xs @ ys) s e w =
       (case process_data_sources parse fmt ys s e w1 of
          (out2, w2, r) \<Rightarrow> (out1 @ out2, w2, r))"
  by (simp add: process_data_sources_append then_run_done split: prod.splits)

theorem missing_source_is_skipped_witness:
  "process_data_sources iso_dates iso_text [(''rows.csv'', ''date'', ''first.csv'')] ''2023-12-24'' ''2023-12-31'' scenario
     = ([''Processing file: rows.csv'', ''Filtered data saved to: first.csv''],
        scenario\<lparr>nodes := (nodes scenario)(''first.csv'' \<mapsto> File (Csv kept_table) (clock scenario))\<rparr>, None) \<and>
   \<not> path_exists (scenario\<lparr>nodes := (nodes scenario)(''first.csv'' \<mapsto> File (Csv kept_table) (clock scenario))\<rparr>)
        ''missing.csv'' \<and>
   (case process_data_sources iso_dates iso_text
      [(''rows.csv'', ''date'', ''first.csv''), (''missing.csv'', ''date'', ''second.csv''),
       (''rows.csv'', ''date'', ''third.csv'')] ''2023-12-24'' ''2023-12-31'' scenario of
      (out, w, r) \<Rightarrow>
        out = [''Processing file: rows.csv'', ''Filtered data saved to: first.csv'',
               ''File not found: missing.csv'',
               ''Processing file: rows.csv'', ''Filtered data saved to: third.csv''] \<and>
        r = None \<and>
        nodes w ''first.csv'' = Some (File (Csv kept_table) (clock scenario)) \<and>
        nodes w ''second.csv'' = None \<and>
        nodes w ''third.csv'' = Some (File (Csv kept_table) (clock scenario)))"
  using missing_source_is_skipped[of iso_dates iso_text "[(''rows.csv'', ''date'', ''first.csv'')]"
      "''2023-12-24''" "''2023-12-31''" scenario
      "[''Processing file: rows.csv'', ''Filtered data saved to: first.csv'']"
      "scenario\<lparr>nodes := (nodes scenario)(''first.csv'' \<mapsto> File (Csv kept_table) (clock scenario))\<rparr>"
      "''missing.csv''" "''date''" "''second.csv''" "[(''rows.csv'', ''date'', ''third.csv'')]"]
    batch_first
  by (simp add: scenario_def fs_defs table_defs text_defs strptime_defs)

text \<open>
  What \<^verbatim>\<open>filter_data_by_date\<close> raises on a file that exists leaves the loop of
  \<^verbatim>\<open>process_data_sources\<close>, whatever triples remain.
\<close>

lemma failed_source_ends_batch:
  "path_exists w fp \<and> filter_data_by_date parse w fp s e dc = Inl err \<longrightarrow>
     process_data_sources parse fmt ((fp, dc, op) # rest) s e w = ([''Processing file: '' @ fp], w, Some err)"
  by simp

text \<open>
  C1 fails on the code. In a batch of two whose first table holds a word that is not a
  date in its date column, the batch ends with \<^verbatim>\<open>ValueError\<close> and the second triple, which
  is written when it is processed alone, is never written.
\<close>

theorem malformed_source_ends_batch:
  "(case process_data_sources iso_dates iso_text
      [(''broken.csv'', ''date'', ''first.csv''), (''rows.csv'', ''date'', ''second.csv'')]
      ''2023-12-24'' ''2023-12-31'' scenario of
      (out, w, r) \<Rightarrow>
        out = [''Processing file: broken.csv''] \<and> r = Some ValueError \<and>
        nodes w ''first.csv'' = None \<and> nodes w ''second.csv'' = None) \<and>
   (case process_data_sources iso_dates iso_text [(''rows.csv'', ''date'', ''second.csv'')]
      ''2023-12-24'' ''2023-12-31'' scenario of
      (out, w, r) \<Rightarrow> r = None \<and> nodes w ''second.csv'' = Some (File (Csv kept_table) (clock scenario)))"
  by (simp add: scenario_def fs_defs table_defs text_defs strptime_defs)

section \<open>Properties of the exporter and the orchestrations\<close>

lemma join_plain:
  "a \<noteq> [] \<Longrightarrow> last a \<noteq> CHR ''/'' \<Longrightarrow> n \<noteq> [] \<Longrightarrow> hd n \<noteq> CHR ''/'' \<Longrightarrow> join a n = a @ ''/'' @ n"
  by (cases n; cases a rule: rev_cases) (auto simp: join_def startswith_def endswith_def)

lemma dirname_plain:
  assumes "a \<noteq> []" "last a \<noteq> CHR ''/''" "CHR ''/'' \<notin> set n"
  shows "dirname (a @ ''/'' @ n) = a" and "basename (a @ ''/'' @ n) = n"
proof -
  have r: "rev (a @ ''/'' @ n) = rev n @ CHR ''/'' # rev a" by simp
  have d: "dropWhile (\<lambda>c. c \<noteq> CHR ''/'') (rev n @ CHR ''/'' # rev a) = CHR ''/'' # rev a"
    using assms(3) by (auto simp: dropWhile_append3)
  have t: "takeWhile (\<lambda>c. c \<noteq> CHR ''/'') (rev n @ CHR ''/'' # rev a) = rev n"
    using assms(3) by (auto simp: takeWhile_tail)
  from assms(1,2) obtain b c where a: "a = b @ [c]" and c: "c \<noteq> CHR ''/''"
    by (cases a rule: rev_cases) auto
  show "dirname (a @ ''/'' @ n) = a"
    unfolding dirname_def r d using c by (simp add: a Let_def)
  show "basename (a @ ''/'' @ n) = n"
    unfolding basename_def r t by simp
qed

lemma add_child_keeps [simp]:
  "clock (add_child p w) = clock w" "encodes (add_child p w) = encodes w"
  "is_dir (add_child p w) q = is_dir w q" "isfile (add_child p w) q = isfile w q"
  by (auto simp: add_child_def is_dir_def isfile_def split: option.splits node.splits)

lemma mkdir_keeps:
  "is_dir (w\<lparr>nodes := (nodes w)(p \<mapsto> Dir [])\<rparr>) q = (q = p \<or> is_dir w q)"
  "\<not> isfile w p \<Longrightarrow> isfile (w\<lparr>nodes := (nodes w)(p \<mapsto> Dir [])\<rparr>) q = isfile w q"
  by (auto simp: is_dir_def isfile_def split: option.splits node.splits)

lemma mkdir_each_ok:
  "list_all (\<lambda>q. \<not> isfile w q) ps \<Longrightarrow>
     \<exists>w1. mkdir_each ps w = Inr w1 \<and> clock w1 = clock w \<and> encodes w1 = encodes w \<and>
          (\<forall>q. q \<in> set ps \<longrightarrow> is_dir w1 q) \<and>
          (\<forall>q. q \<notin> set ps \<longrightarrow> is_dir w1 q = is_dir w q)"
proof (induction ps arbitrary: w)
  case Nil
  then show ?case by simp
next
  case (Cons p ps)
  then have nf: "\<not> isfile w p" and rest: "list_all (\<lambda>q. \<not> isfile w q) ps" by simp_all
  show ?case
  proof (cases "is_dir w p")
    case True
    then have step: "mkdir_each (p # ps) w = mkdir_each ps w"
      by (auto simp: is_dir_def split: option.splits node.splits)
    from Cons.IH[OF rest] obtain w1 where w1: "mkdir_each ps w = Inr w1" "clock w1 = clock w"
      "encodes w1 = encodes w" "\<forall>q. q \<in> set ps \<longrightarrow> is_dir w1 q"
      "\<forall>q. q \<notin> set ps \<longrightarrow> is_dir w1 q = is_dir w q" by blast
    with True step show ?thesis by (cases "p \<in> set ps") auto
  next
    case False
    let ?w = "add_child p (w\<lparr>nodes := (nodes w)(p \<mapsto> Dir [])\<rparr>)"
    from False nf have none: "nodes w p = None"
      by (auto simp: is_dir_def isfile_def split: option.splits node.splits)
    then have step: "mkdir_each (p # ps) w = mkdir_each ps ?w" by simp
    have "list_all (\<lambda>q. \<not> isfile ?w q) ps"
      using rest nf by (simp add: mkdir_keeps)
    from Cons.IH[OF this] obtain w1 where w1: "mkdir_each ps ?w = Inr w1" "clock w1 = clock ?w"
      "encodes w1 = encodes ?w" "\<forall>q. q \<in> set ps \<longrightarrow> is_dir w1 q"
      "\<forall>q. q \<notin> set ps \<longrightarrow> is_dir w1 q = is_dir ?w q" by blast
    have "is_dir w1 p"
      using w1(4,5) by (cases "p \<in> set ps") (auto simp: mkdir_keeps)
    moreover have "\<forall>q. q \<notin> set (p # ps) \<longrightarrow> is_dir w1 q = is_dir w q"
      using w1(5) by (auto simp: mkdir_keeps)
    ultimately show ?thesis using step w1 by auto
  qed
qed

lemma makedirs_ok:
  assumes "od \<noteq> []" "list_all (\<lambda>q. \<not> isfile w q) (ancestors od @ [od])"
  shows "\<exists>w1. makedirs od w = Inr w1 \<and> clock w1 = clock w \<and> encodes w1 = encodes w \<and>
          is_dir w1 od \<and> (\<forall>q. q \<notin> set (ancestors od @ [od]) \<longrightarrow> is_dir w1 q = is_dir w q)"
proof (cases "is_dir w od")
  case True
  then have "makedirs od w = Inr w"
    by (auto simp: makedirs_def is_dir_def split: option.splits node.splits)
  with True show ?thesis by simp
next
  case False
  with assms(2) have "nodes w od = None"
    by (auto simp: is_dir_def isfile_def split: option.splits node.splits)
  then have "makedirs od w = mkdir_each (ancestors od @ [od]) w"
    using assms(1) by (simp add: makedirs_def)
  with mkdir_each_ok[OF assms(2)] show ?thesis by auto
qed

lemma ancestors_shorter: "q \<in> set (ancestors p @ [p]) \<Longrightarrow> length q \<le> length p"
  by (auto simp: ancestors_def)

lemma journal_name_plain:
  "CHR ''/'' \<notin> set s \<Longrightarrow> CHR ''/'' \<notin> set e \<Longrightarrow>
     CHR ''/'' \<notin> set (journal_name s e) \<and> journal_name s e \<noteq> [] \<and> hd (journal_name s e) \<noteq> CHR ''/''"
  by (simp add: journal_name_def)

lemma journal_path:
  assumes "od \<noteq> []" "last od \<noteq> CHR ''/''" "CHR ''/'' \<notin> set s" "CHR ''/'' \<notin> set e"
  shows "dirname (join od (journal_name s e)) = od" and "join od (journal_name s e) \<noteq> od"
    and "join od (journal_name s e) \<noteq> []"
    and "join od (journal_name s e) \<notin> set (ancestors od @ [od])"
proof -
  from journal_name_plain[OF assms(3,4)] have n: "CHR ''/'' \<notin> set (journal_name s e)"
    "journal_name s e \<noteq> []" "hd (journal_name s e) \<noteq> CHR ''/''" by simp_all
  have j: "join od (journal_name s e) = od @ ''/'' @ journal_name s e"
    using assms(1,2) n(2,3) by (rule join_plain)
  show "dirname (join od (journal_name s e)) = od"
    unfolding j using assms(1,2) n(1) by (rule dirname_plain)
  show "join od (journal_name s e) \<noteq> od" unfolding j by simp
  show "join od (journal_name s e) \<noteq> []" unfolding j by simp
  have "length od < length (join od (journal_name s e))" unfolding j by simp
  then show "join od (journal_name s e) \<notin> set (ancestors od @ [od])"
    using ancestors_shorter[of "join od (journal_name s e)" od] by auto
qed

lemma write_file_in_dir:
  assumes "is_dir w d" "\<not> is_dir w p" "dirname p = d" "d \<noteq> []" "p \<noteq> d" "p \<noteq> []"
  shows "\<exists>w2. write_file p c w = Inr w2 \<and> nodes w2 p = Some (File c (clock w)) \<and> is_dir w2 d"
proof -
  let ?w' = "w\<lparr>nodes := (nodes w)(p \<mapsto> File c (clock w))\<rparr>"
  from assms(1) obtain names where n: "nodes w d = Some (Dir names)"
    by (auto simp: is_dir_def split: option.splits node.splits)
  have wf: "write_file p c w = Inr (add_child p ?w')"
    using assms n by (auto simp: write_file_def is_dir_def split: option.splits node.splits)
  have "nodes (add_child p ?w') p = Some (File c (clock w))"
    using assms n by (simp add: add_child_def)
  moreover have "is_dir (add_child p ?w') d"
  proof -
    have "is_dir ?w' d" using assms(5) n by (simp add: is_dir_def)
    then show ?thesis by simp
  qed
  ultimately show ?thesis using wf by blast
qed

lemma save_writes:
  assumes "exportable w od s e"
  shows "\<exists>w2. save_spotify_data_for_journaling repr filtered od s e w =
           ((case snd (write_entries (encodes w) repr filtered) of
               None \<Rightarrow> [''Journal-ready Spotify data saved to: '' @ join od (journal_name s e)]
             | Some err \<Rightarrow> []), w2, snd (write_entries (encodes w) repr filtered)) \<and>
         is_dir w2 od \<and>
         nodes w2 (join od (journal_name s e))
           = Some (File (Journal (fst (write_entries (encodes w) repr filtered))) (clock w))"
proof -
  from assms have a: "od \<noteq> []" "last od \<noteq> CHR ''/''" "CHR ''/'' \<notin> set s" "CHR ''/'' \<notin> set e"
    and nf: "list_all (\<lambda>q. \<not> isfile w q) (ancestors od @ [od])"
    and nd: "\<not> is_dir w (join od (journal_name s e))"
    by (simp_all add: exportable_def)
  from makedirs_ok[OF a(1) nf] obtain w1 where w1: "makedirs od w = Inr w1" "clock w1 = clock w"
    "is_dir w1 od" "\<forall>q. q \<notin> set (ancestors od @ [od]) \<longrightarrow> is_dir w1 q = is_dir w q" by blast
  from w1(4) journal_path(4)[OF a] nd have nd1: "\<not> is_dir w1 (join od (journal_name s e))" by simp
  from write_file_in_dir[OF w1(3) nd1 journal_path(1)[OF a] a(1) journal_path(2)[OF a]
      journal_path(3)[OF a]]
  obtain w2 where w2:
    "write_file (join od (journal_name s e)) (Journal (fst (write_entries (encodes w) repr filtered))) w1 = Inr w2"
    "nodes w2 (join od (journal_name s e))
       = Some (File (Journal (fst (write_entries (encodes w) repr filtered))) (clock w1))"
    "is_dir w2 od" by blast
  show ?thesis
    using w1(1,2) w2
    by (cases "write_entries (encodes w) repr filtered")
       (auto simp: save_spotify_data_for_journaling_def Let_def split: option.splits)
qed

lemma load_dotenv_keeps [simp]:
  "nodes (load_dotenv w) = nodes w" "clock (load_dotenv w) = clock w"
  "path_exists (load_dotenv w) p = path_exists w p"
  by (simp_all add: load_dotenv_def path_exists_def)

lemmas export_defs = export_def archive_def is_dir_def isfile_def makedirs_def join_def startswith_def
  endswith_def journal_name_def ancestors_def exportable_def

lemmas journal_defs = journal_entry_def str_of_def show_int_def show_nat.simps digit_char_def
  any_text_def

text \<open>
  C9. Each orchestration ends at once, with one notice printed, no exception and the
  file system as it was, when its source path is not set, is empty or does not exist,
  and when its source is there but the output path is not set or is empty.
\<close>

theorem missing_configuration_returns_early:
  "(not_found w ''SPOTIFY_DATA_PATH'' \<longrightarrow>
      process_spotify_data repr s e w =
        ([''Spotify data path not found or not specified in .env file.''], load_dotenv w, None)) \<and>
   (\<not> not_found w ''SPOTIFY_DATA_PATH'' \<and> unset w ''OUTPUT_PATH'' \<longrightarrow>
      process_spotify_data repr s e w =
        ([''Output path not specified in .env file.''], load_dotenv w, None)) \<and>
   (not_found w ''SCREENSHOTS_PATH'' \<longrightarrow>
      process_screenshots s e w =
        ([''Screenshots path not found or not specified in .env file.''], load_dotenv w, None)) \<and>
   (\<not> not_found w ''SCREENSHOTS_PATH'' \<and> unset w ''OUTPUT_PATH'' \<longrightarrow>
      process_screenshots s e w =
        ([''Output path not specified in .env file.''], load_dotenv w, None)) \<and>
   nodes (load_dotenv w) = nodes w"
  by (auto simp: process_spotify_data_def process_screenshots_def not_found_def unset_def Let_def
      split: option.splits)

theorem missing_configuration_returns_early_witness:
  "not_found scenario ''SPOTIFY_DATA_PATH'' \<and>
   process_spotify_data brackets ''2023-12-24'' ''2023-12-31'' scenario =
     ([''Spotify data path not found or not specified in .env file.''], load_dotenv scenario, None) \<and>
   not_found scenario ''SCREENSHOTS_PATH'' \<and>
   process_screenshots ''2023-12-24'' ''2023-12-31'' scenario =
     ([''Screenshots path not found or not specified in .env file.''], load_dotenv scenario, None) \<and>
   \<not> not_found (export\<lparr>dotenv := Map.empty\<rparr>) ''SPOTIFY_DATA_PATH'' \<and>
   \<not> not_found (export\<lparr>dotenv := Map.empty\<rparr>) ''SCREENSHOTS_PATH'' \<and>
   unset (export\<lparr>dotenv := Map.empty\<rparr>) ''OUTPUT_PATH'' \<and>
   process_spotify_data brackets ''2023-12-24'' ''2023-12-31'' (export\<lparr>dotenv := Map.empty\<rparr>) =
     ([''Output path not specified in .env file.''], load_dotenv (export\<lparr>dotenv := Map.empty\<rparr>), None) \<and>
   process_screenshots ''2023-12-24'' ''2023-12-31'' (export\<lparr>dotenv := Map.empty\<rparr>) =
     ([''Output path not specified in .env file.''], load_dotenv (export\<lparr>dotenv := Map.empty\<rparr>), None) \<and>
   nodes (load_dotenv scenario) = nodes scenario"
  using missing_configuration_returns_early[of scenario brackets "''2023-12-24''" "''2023-12-31''"]
    missing_configuration_returns_early[of "export\<lparr>dotenv := Map.empty\<rparr>" brackets "''2023-12-24''" "''2023-12-31''"]
  by (simp add: not_found_def unset_def getenv_def load_dotenv_def scenario_def export_def path_exists_def)



lemma has_fields_journal_entry:
  "has_fields x \<Longrightarrow> \<exists>block. journal_entry repr x = Inr block"
  by (cases x) (auto simp: has_fields_def journal_fields_def journal_entry_def)

lemma lacking_field_raises:
  "\<not> has_fields (JObj kvs) \<Longrightarrow> journal_entry repr (JObj kvs) = Inl KeyError"
  by (auto simp: has_fields_def journal_fields_def journal_entry_def split: option.splits)

lemma full_entry_block:
  "has_fields (JObj kvs) \<Longrightarrow>
     journal_entry repr (JObj kvs) = Inr (unlines
       [''Date: '' @ str_of repr (the (map_of kvs ''ts'')),
        ''Track: '' @ str_of repr (the (map_of kvs ''master_metadata_track_name'')),
        ''Artist: '' @ str_of repr (the (map_of kvs ''master_metadata_album_artist_name'')),
        ''Album: '' @ str_of repr (the (map_of kvs ''master_metadata_album_album_name'')),
        ''Platform: '' @ str_of repr (the (map_of kvs ''platform'')),
        ''Time Played: '' @ str_of repr (the (map_of kvs ''ms_played'')) @ '' ms'',
        ''---''])"
  by (auto simp: has_fields_def journal_fields_def journal_entry_def)

lemma write_entries_full:
  "list_all has_fields xs \<Longrightarrow> encodable enc repr xs \<Longrightarrow>
     \<exists>blocks. write_entries enc repr xs = (blocks, None) \<and> map (journal_entry repr) xs = map Inr blocks"
proof (induction xs)
  case Nil
  then show ?case by simp
next
  case (Cons x xs)
  then obtain blocks where rs: "write_entries enc repr xs = (blocks, None)"
    "map (journal_entry repr) xs = map Inr blocks"
    by (auto simp: encodable_def)
  from Cons.prems obtain b where b: "journal_entry repr x = Inr b"
    using has_fields_journal_entry by auto
  with Cons.prems have "enc b" by (simp add: encodable_def)
  with rs b show ?case by simp
qed

text \<open>
  A block that the encoding of the file cannot encode ends the loop with
  \<^verbatim>\<open>UnicodeEncodeError\<close>: so does a track name that is not ASCII in a file of an ASCII
  locale.
\<close>

lemma unencodable_block_raises:
  "journal_entry repr x = Inr block \<Longrightarrow> \<not> enc block \<Longrightarrow>
     write_entries enc repr (x # xs) = ([], Some UnicodeEncodeError)"
  by simp

lemma accented_entry_raises:
  "has_fields accented_entry \<and>
   snd (snd (save_spotify_data_for_journaling brackets [accented_entry] ''out''
      ''2023-12-24'' ''2023-12-31'' (archive\<lparr>encodes := ascii_text\<rparr>))) = Some UnicodeEncodeError"
  by (simp add: save_spotify_data_for_journaling_def export_defs accented_entry_def
      has_fields_def journal_fields_def journal_defs unlines_def ascii_text_def
      write_file_def add_child_def dirname_def basename_def Let_def)

text \<open>
  C2 as the specification states it fails: an entry without the key \<^verbatim>\<open>platform\<close> ends
  the exporter with \<^verbatim>\<open>KeyError\<close>.
\<close>

theorem exporter_missing_field_counterexample:
  "snd (snd (save_spotify_data_for_journaling brackets [partial_entry] ''out'' ''2023-12-24'' ''2023-12-31'' export))
     = Some KeyError"
  by (simp add: save_spotify_data_for_journaling_def export_defs partial_entry_def journal_entry_def
      mkdir_each.simps add_child_def dirname_def basename_def write_file_def Let_def)

text \<open>
  C2, amended. The exporter completes and writes one block for every entry, in order,
  when every entry is an object that has the six keys, the encoding of the file can
  encode every block, and the paths let the call reach the loop. The block of such an
  entry prints each value with \<^verbatim>\<open>str\<close>, so a null value is written as \<^verbatim>\<open>None\<close>. An object
  without one of the keys raises \<^verbatim>\<open>KeyError\<close>.
\<close>

theorem exporter_completes_on_full_entries:
  "(list_all has_fields entries \<and> encodable (encodes w) repr entries \<and>
    exportable w output_dir s e \<longrightarrow>
      (\<exists>w2 blocks. save_spotify_data_for_journaling repr entries output_dir s e w =
         ([''Journal-ready Spotify data saved to: '' @ join output_dir (journal_name s e)], w2, None) \<and>
         nodes w2 (join output_dir (journal_name s e)) = Some (File (Journal blocks) (clock w)) \<and>
         map (journal_entry repr) entries = map Inr blocks)) \<and>
   (has_fields (JObj kvs) \<longrightarrow>
      journal_entry repr (JObj kvs) = Inr (unlines
        [''Date: '' @ str_of repr (the (map_of kvs ''ts'')),
         ''Track: '' @ str_of repr (the (map_of kvs ''master_metadata_track_name'')),
         ''Artist: '' @ str_of repr (the (map_of kvs ''master_metadata_album_artist_name'')),
         ''Album: '' @ str_of repr (the (map_of kvs ''master_metadata_album_album_name'')),
         ''Platform: '' @ str_of repr (the (map_of kvs ''platform'')),
         ''Time Played: '' @ str_of repr (the (map_of kvs ''ms_played'')) @ '' ms'',
         ''---''])) \<and>
   str_of repr JNull = ''None'' \<and>
   (\<not> has_fields (JObj kvs) \<longrightarrow> journal_entry repr (JObj kvs) = Inl KeyError)"
proof (intro conjI impI)
  assume h: "list_all has_fields entries \<and> encodable (encodes w) repr entries \<and>
    exportable w output_dir s e"
  then have a: "exportable w output_dir s e" by simp
  from h obtain blocks where rs: "write_entries (encodes w) repr entries = (blocks, None)"
    "map (journal_entry repr) entries = map Inr blocks"
    using write_entries_full by blast
  from save_writes[OF a, of repr entries] rs
  show "\<exists>w2 blocks. save_spotify_data_for_journaling repr entries output_dir s e w =
         ([''Journal-ready Spotify data saved to: '' @ join output_dir (journal_name s e)], w2, None) \<and>
         nodes w2 (join output_dir (journal_name s e)) = Some (File (Journal blocks) (clock w)) \<and>
         map (journal_entry repr) entries = map Inr blocks"
    by auto
next
  assume "has_fields (JObj kvs)"
  then show "journal_entry repr (JObj kvs) = Inr (unlines
        [''Date: '' @ str_of repr (the (map_of kvs ''ts'')),
         ''Track: '' @ str_of repr (the (map_of kvs ''master_metadata_track_name'')),
         ''Artist: '' @ str_of repr (the (map_of kvs ''master_metadata_album_artist_name'')),
         ''Album: '' @ str_of repr (the (map_of kvs ''master_metadata_album_album_name'')),
         ''Platform: '' @ str_of repr (the (map_of kvs ''platform'')),
         ''Time Played: '' @ str_of repr (the (map_of kvs ''ms_played'')) @ '' ms'',
         ''---''])"
    by (rule full_entry_block)
next
  show "str_of repr JNull = ''None''" by (simp add: str_of_def)
next
  assume "\<not> has_fields (JObj kvs)"
  then show "journal_entry repr (JObj kvs) = Inl KeyError" by (rule lacking_field_raises)
qed

lemma boxing_entry_block: "journal_entry repr boxing_entry = Inr boxing_block"
  by (simp add: boxing_entry_def boxing_block_def journal_defs)

theorem exporter_completes_on_full_entries_witness:
  "list_all has_fields [boxing_entry] \<and>
   encodable (encodes archive) brackets [boxing_entry] \<and>
   exportable archive ''out'' ''2023-12-24'' ''2023-12-31'' \<and>
   journal_entry brackets boxing_entry = Inr boxing_block \<and>
   (\<exists>w2 blocks. save_spotify_data_for_journaling brackets [boxing_entry] ''out'' ''2023-12-24'' ''2023-12-31'' archive =
      ([''Journal-ready Spotify data saved to: '' @ join ''out'' (journal_name ''2023-12-24'' ''2023-12-31'')],
       w2, None) \<and>
      nodes w2 (join ''out'' (journal_name ''2023-12-24'' ''2023-12-31''))
        = Some (File (Journal blocks) (clock archive)) \<and>
      map (journal_entry brackets) [boxing_entry] = map Inr blocks) \<and>
   \<not> has_fields partial_entry \<and> journal_entry brackets partial_entry = Inl KeyError"
proof -
  have h: "list_all has_fields [boxing_entry]"
    by (simp add: has_fields_def journal_fields_def boxing_entry_def)
  have en: "encodable (encodes archive) brackets [boxing_entry]"
    by (simp add: encodable_def boxing_entry_block archive_def export_def any_text_def)
  have ex: "exportable archive ''out'' ''2023-12-24'' ''2023-12-31''"
    by (simp add: export_defs)
  have p: "\<not> has_fields partial_entry"
    by (simp add: has_fields_def journal_fields_def partial_entry_def)
  from exporter_completes_on_full_entries[of "[boxing_entry]" archive brackets "''out''"
      "''2023-12-24''" "''2023-12-31''" "[(''ts'', JStr ''2023-12-27T08:30:00Z''),
      (''master_metadata_track_name'', JStr ''Podcast''),
      (''master_metadata_album_artist_name'', JStr ''Host''),
      (''master_metadata_album_album_name'', JStr ''Show''),
      (''ms_played'', JNum 5)]"] h en ex p boxing_entry_block[of brackets]
  show ?thesis unfolding partial_entry_def by blast
qed

lemmas run_defs = process_spotify_data_def load_dotenv_def getenv_def path_exists_def listdir_def
  filter_spotify_data_def json_load_def entry_time_def save_spotify_data_for_journaling_def
  write_file_def add_child_def dirname_def basename_def then_run_def Let_def

text \<open>
  C3 fails on the code. In a directory with two files that match the naming convention,
  each holding one entry of the range, both journals are written to the one file named by
  the date range: after the run the output directory holds that single file, and it holds
  the block of the second file only.
\<close>

theorem matching_files_share_one_journal:
  "filter_spotify_data export ''spotify/Streaming_History_Audio_2022-2023_0.json''
      ''2023-12-24'' ''2023-12-31'' = Inr [first_entry] \<and>
   filter_spotify_data export ''spotify/Streaming_History_Audio_2023-2024_1.json''
      ''2023-12-24'' ''2023-12-31'' = Inr [boxing_entry] \<and>
   (case process_spotify_data brackets ''2023-12-24'' ''2023-12-31'' export of
      (out, w, r) \<Rightarrow>
        r = None \<and>
        out = [''Processing Spotify file: spotify/Streaming_History_Audio_2022-2023_0.json'',
               ''Journal-ready Spotify data saved to: out/spotify_journal_2023-12-24_to_2023-12-31.txt'',
               ''Processing Spotify file: spotify/Streaming_History_Audio_2023-2024_1.json'',
               ''Journal-ready Spotify data saved to: out/spotify_journal_2023-12-24_to_2023-12-31.txt''] \<and>
        nodes w ''out'' = Some (Dir [''spotify_journal_2023-12-24_to_2023-12-31.txt'']) \<and>
        nodes w ''out/spotify_journal_2023-12-24_to_2023-12-31.txt'' =
          Some (File (Journal [boxing_block]) (clock export)))"
  by (simp add: run_defs export_defs journal_defs first_entry_def last_entry_def boxing_entry_def
      boxing_block_def strptime_defs)

end
